theory Spec2Isabelle
  imports Main "HOL-Library.Word"
begin

unbundle bit_operations_syntax

section \<open>Data model of the STUN codec (packet.go, attribute.go)\<close>

type_synonym byte = "8 word"
type_synonym uint16 = "16 word"

text \<open>
  A Go call either returns or panics (a slice expression out of range, a nil
  dereference). A panic is a value of the model, so that "does not crash" can be stated.
\<close>

datatype 'a go = Ret 'a | Panic

datatype error =
    TooShort          \<comment> \<open>"received data length too short"\<close>
  | TooLong           \<comment> \<open>"received data length too long"\<close>
  | FormatMismatch    \<comment> \<open>"received data format mismatch"\<close>
  | SendLength        \<comment> \<open>"error in sending rqstPkgData"\<close>
  | NoAnswer          \<comment> \<open>"the CHANGED server had NO answer"\<close>
  | Transport string  \<comment> \<open>an error value handed back by the connection\<close>

record udp_addr =
  ip :: "byte list"
  port :: int
  zone :: string

record attribute =
  types_a :: uint16
  length_a :: uint16
  value_a :: "byte list"

record packet =
  types_p :: uint16
  length_p :: uint16
  transID :: "byte list"
  attributes :: "attribute list"
  orgHost :: "udp_addr option"

definition msgTypeBindingRequest :: uint16 where "msgTypeBindingRequest = 0x0001"
definition msgTypeBindingResponse :: uint16 where "msgTypeBindingResponse = 0x0101"

definition attributeMappedAddress :: uint16 where "attributeMappedAddress = 0x0001"
definition attributeChangeRequest :: uint16 where "attributeChangeRequest = 0x0003"
definition attributeSourceAddress :: uint16 where "attributeSourceAddress = 0x0004"
definition attributeChangedAddress :: uint16 where "attributeChangedAddress = 0x0005"

definition magicCookie :: "32 word" where "magicCookie = 0xA2400227"

subsection \<open>Slices and big-endian integers\<close>

text \<open>
  The slice expression \<open>s[lo:hi]\<close>. Go panics unless \<open>lo \<le> hi \<le> cap(s)\<close>; the model
  has no capacities and uses the length as the bound, so every slice the model allows
  stays inside the bytes that were received.
\<close>

definition slice :: "'a list \<Rightarrow> nat \<Rightarrow> nat \<Rightarrow> 'a list option" where
  "slice s lo hi = (if lo \<le> hi \<and> hi \<le> length s then Some (take (hi - lo) (drop lo s)) else None)"

text \<open>\<open>binary.BigEndian.Uint16(b)\<close> reads \<open>b[1]\<close> and \<open>b[0]\<close>, and panics on a shorter slice.\<close>

definition Uint16 :: "byte list \<Rightarrow> uint16 option" where
  "Uint16 b = (if length b < 2 then None
               else Some (ucast (b ! 1) OR push_bit 8 (ucast (b ! 0))))"

text \<open>\<open>binary.BigEndian.PutUint16\<close> into a fresh two-byte buffer.\<close>

definition PutUint16 :: "uint16 \<Rightarrow> byte list" where
  "PutUint16 v = [ucast (drop_bit 8 v), ucast v]"

definition PutUint32 :: "32 word \<Rightarrow> byte list" where
  "PutUint32 v = [ucast (drop_bit 24 v), ucast (drop_bit 16 v), ucast (drop_bit 8 v), ucast v]"

subsection \<open>align and padding\<close>

text \<open>
  Modelled from the spec: \<open>align\<close> lives in utils.go, of which only the tests are in
  the sources. The spec: "align(n): smallest multiple of 4 that is \<ge> n (n=0 \<rightarrow> 0)"; the
  tests give it the type uint16 \<rightarrow> uint16, so the multiple is stored in 16 bits.
\<close>

definition align :: "uint16 \<Rightarrow> uint16" where
  "align n = word_of_nat (4 * ((unat n + 3) div 4))"

text \<open>
  Modelled from the spec: \<open>padding\<close> lives in utils.go as well. The spec: "pads rawValue
  with zero bytes up to the next multiple of 4".
\<close>

definition padding :: "byte list \<Rightarrow> byte list" where
  "padding bytes = bytes @ replicate ((4 - length bytes mod 4) mod 4) 0"

subsection \<open>Attributes\<close>

definition newAttribute :: "uint16 \<Rightarrow> byte list \<Rightarrow> attribute" where
  "newAttribute types val =
     \<lparr>types_a = types, length_a = word_of_nat (length (padding val)), value_a = padding val\<rparr>"

definition newChangeReqAttribute :: "bool \<Rightarrow> bool \<Rightarrow> attribute" where
  "newChangeReqAttribute changeIP changePort =
     newAttribute attributeChangeRequest
       [0, 0, 0, (if changeIP then 0x04 else 0) OR (if changePort then 0x02 else 0)]"

text \<open>
  \<open>commAddr\<close> slices \<open>v.value[2:4]\<close> for the port, then \<open>v.value[4:v.length]\<close> for the
  address. It has no check of its own: a slice out of range is a panic.
\<close>

definition commAddr :: "attribute \<Rightarrow> udp_addr go" where
  "commAddr v =
     (case slice (value_a v) 2 4 of
        None \<Rightarrow> Panic
      | Some pb \<Rightarrow>
         (case Uint16 pb of
            None \<Rightarrow> Panic
          | Some pt \<Rightarrow>
             (case slice (value_a v) 4 (unat (length_a v)) of
                None \<Rightarrow> Panic
              | Some a \<Rightarrow> Ret \<lparr>ip = a, port = uint pt, zone = []\<rparr>)))"

subsection \<open>Packets\<close>

text \<open>
  \<open>newPacket\<close> asks the random source for the last 12 bytes of the transaction id.
  The outcome of \<open>rand.Read\<close> is an argument: \<open>None\<close> when it fails, otherwise the
  bytes it wrote into the zeroed 12-byte buffer.
\<close>

definition newPacket :: "byte list option \<Rightarrow> error + packet" where
  "newPacket rnd =
     (case rnd of
        None \<Rightarrow> Inl (Transport ''rand'')
      | Some bs \<Rightarrow>
          Inr \<lparr>types_p = 0, length_p = 0,
               transID = PutUint32 magicCookie @ take 12 (bs @ replicate 12 0),
               attributes = [], orgHost = None\<rparr>)"

definition addAttribute :: "packet \<Rightarrow> attribute \<Rightarrow> packet" where
  "addAttribute v a =
     v\<lparr>attributes := attributes v @ [a], length_p := length_p v + (align (length_a a) + 4)\<rparr>"

definition serialize_attr :: "attribute \<Rightarrow> byte list" where
  "serialize_attr a = PutUint16 (types_a a) @ PutUint16 (length_a a) @ value_a a"

definition serialize :: "packet \<Rightarrow> byte list" where
  "serialize v =
     PutUint16 (types_p v) @ PutUint16 (length_p v) @ transID v
       @ concat (map serialize_attr (attributes v))"

subsection \<open>The parser\<close>

text \<open>
  One turn of the attribute loop of \<open>parsePackage\<close>, entered at \<open>pos\<close>: it leaves
  the loop with a result, or goes round again with a new \<open>pos\<close> and packet. All
  arithmetic on \<open>pos\<close>, \<open>length\<close> and \<open>end\<close> is uint16, as in the source.
\<close>

datatype step = Stop "(error + packet) go" | Next uint16 packet

definition parse_step :: "byte list \<Rightarrow> uint16 \<Rightarrow> packet \<Rightarrow> step" where
  "parse_step pkgData pos pkt =
     (if pos + 4 < word_of_nat (length pkgData) then
        (case Option.bind (slice pkgData (unat pos) (unat (pos + 2))) Uint16 of
           None \<Rightarrow> Stop Panic
         | Some types \<Rightarrow>
            (case Option.bind (slice pkgData (unat (pos + 2)) (unat (pos + 4))) Uint16 of
               None \<Rightarrow> Stop Panic
             | Some len \<Rightarrow>
                (let endp = pos + 4 + len in
                 if endp < pos + 4 \<or> endp > word_of_nat (length pkgData)
                 then Stop (Ret (Inl FormatMismatch))
                 else (case slice pkgData (unat (pos + 4)) (unat endp) of
                         None \<Rightarrow> Stop Panic
                       | Some val \<Rightarrow>
                           Next (pos + (align len + 4))
                                (addAttribute pkt (newAttribute types val))))))
      else Stop (Ret (Inr pkt)))"

text \<open>
  The loop itself. Taken alone it need not end (a uint16 \<open>pos\<close> can wrap on a buffer of
  65535 bytes), so not returning is the value \<open>None\<close>; that it always returns inside
  \<open>parsePackage\<close> is proved below.
\<close>

partial_function (option) parse_attrs :: "byte list \<Rightarrow> uint16 \<Rightarrow> packet \<Rightarrow> (error + packet) go option"
where
  "parse_attrs pkgData pos pkt =
     (case parse_step pkgData pos pkt of
        Stop r \<Rightarrow> Some r
      | Next pos' pkt' \<Rightarrow> parse_attrs pkgData pos' pkt')"

declare parse_attrs.simps [code]

definition parsePackage :: "byte list \<Rightarrow> (error + packet) go option" where
  "parsePackage pkgData =
     (if length pkgData < 20 then Some (Ret (Inl TooShort))
      else if length pkgData > 65535 then Some (Ret (Inl TooLong))
      else
        (case Option.bind (slice pkgData 0 2) Uint16 of
           None \<Rightarrow> Some Panic
         | Some t \<Rightarrow>
            (case Option.bind (slice pkgData 2 4) Uint16 of
               None \<Rightarrow> Some Panic
             | Some l \<Rightarrow>
                (case slice pkgData 4 20 of
                   None \<Rightarrow> Some Panic
                 | Some tid \<Rightarrow>
                    (case slice pkgData 20 (length pkgData) of
                       None \<Rightarrow> Some Panic
                     | Some rest \<Rightarrow>
                         parse_attrs rest 0
                           \<lparr>types_p = t, length_p = l, transID = tid,
                            attributes = [], orgHost = None\<rparr>)))))"

text \<open>\<open>findAttrAddr\<close>: the first attribute of the type decides; \<open>None\<close> is the nil pointer.\<close>

fun find_first :: "attribute list \<Rightarrow> uint16 \<Rightarrow> udp_addr option go" where
  "find_first [] attr = Ret None"
| "find_first (a # as) attr =
     (if types_a a = attr
      then (case commAddr a of Panic \<Rightarrow> Panic | Ret ad \<Rightarrow> Ret (Some ad))
      else find_first as attr)"

definition findAttrAddr :: "packet \<Rightarrow> uint16 \<Rightarrow> udp_addr option go" where
  "findAttrAddr v attr = find_first (attributes v) attr"

definition getSourceAddr :: "packet \<Rightarrow> udp_addr option go" where
  "getSourceAddr v = findAttrAddr v attributeSourceAddress"

definition getMappedAddr :: "packet \<Rightarrow> udp_addr option go" where
  "getMappedAddr v = findAttrAddr v attributeMappedAddress"

definition getChangedAddr :: "packet \<Rightarrow> udp_addr option go" where
  "getChangedAddr v = findAttrAddr v attributeChangedAddress"


text \<open>The big-endian 16-bit value at offset \<open>p\<close> of a buffer long enough to hold it.\<close>

definition rd16 :: "byte list \<Rightarrow> nat \<Rightarrow> uint16" where
  "rd16 d p = ucast (d ! (p + 1)) OR push_bit 8 (ucast (d ! p))"

text \<open>An attribute as \<open>newAttribute\<close> makes them: padded value, length field of the value.\<close>

definition padded :: "attribute \<Rightarrow> bool" where
  "padded a = (a = newAttribute (types_a a) (value_a a))"

text \<open>The sum over the attributes of \<open>4 + align(length)\<close>, in uint16 as the length field is.\<close>

definition attrs_size :: "attribute list \<Rightarrow> uint16" where
  "attrs_size as = sum_list (map (\<lambda>a. align (length_a a) + 4) as)"

section \<open>The client (client.go, const.go)\<close>

datatype NATType =
    NATTypeUnknown
  | NATTypeOpenInternet
  | NATTypeFullCone
  | NATTypeRestricted
  | NATTypePortRestricted
  | NATTypeSymmetricUDPFirewall
  | NATTypeSymmetric
  | NATTypeUdpBlocked
  | NATTypeError

record Client =
  nLocalAddr :: "udp_addr option"
  nSrvAddr :: "udp_addr option"
  nChangedAddr :: "udp_addr option"
  nMappedAddr :: "udp_addr option"

definition maxRetransmitNum :: nat where "maxRetransmitNum = 9"
definition defRetransmitIntervalMs :: int where "defRetransmitIntervalMs = 100"
definition maxTimeoutMs :: int where "maxTimeoutMs = 1600"
definition maxPacketSize :: nat where "maxPacketSize = 1024"

subsection \<open>The connection and the random source\<close>

text \<open>
  The socket and \<open>crypto/rand\<close> are outside the program. The model scripts them:
  \<^item> \<open>rand_src k\<close> is the outcome of the \<open>k\<close>-th \<open>rand.Read\<close> (\<open>None\<close>: it failed);
  \<^item> \<open>writes k data addr\<close> is what the \<open>k\<close>-th \<open>WriteTo\<close> returns;
  \<^item> \<open>deadlines k\<close> is the error of the \<open>k\<close>-th \<open>SetReadDeadline\<close>, if any;
  \<^item> \<open>reads\<close> are the outcomes of the successive \<open>ReadFrom\<close> calls, a finite list since
    only finitely many datagrams arrive before a deadline; when the script is used up
    nothing more arrives, and a read ends with its deadline.
  \<open>trace\<close> records every call of \<open>WriteTo\<close> (\<open>Sent\<close>, with the bytes and the
  destination, whatever the call returns) and every deadline set, in milliseconds.
\<close>

datatype read_result = Timeout | ReadErr string | Datagram "byte list" udp_addr

datatype write_result = WriteErr string | Written nat

datatype io_event = Sent "byte list" "udp_addr option" | Deadline int

record world =
  rand_src :: "nat \<Rightarrow> byte list option"
  n_rand :: nat
  writes :: "nat \<Rightarrow> byte list \<Rightarrow> udp_addr option \<Rightarrow> write_result"
  n_write :: nat
  deadlines :: "nat \<Rightarrow> string option"
  n_deadline :: nat
  reads :: "read_result list"
  trace :: "io_event list"

type_synonym chkfun = "Client \<Rightarrow> packet \<Rightarrow> bool go"

definition buildBindingRequest :: "bool \<Rightarrow> bool \<Rightarrow> byte list option \<Rightarrow> packet option" where
  "buildBindingRequest changeIP changePort rnd =
     (case newPacket rnd of
        Inl err \<Rightarrow> None
      | Inr pkt \<Rightarrow>
          (let pkt = pkt\<lparr>types_p := msgTypeBindingRequest\<rparr>
           in if changeIP \<or> changePort
              then Some (addAttribute pkt (newChangeReqAttribute changeIP changePort))
              else Some pkt))"

subsection \<open>The retransmission engine\<close>

text \<open>
  The inner \<open>for { ... }\<close> of \<open>fsmSendPackageWaitReply\<close>: it ends the attempt (\<open>break\<close>)
  or the whole call (\<open>return\<close>). The receive buffer has \<open>maxPacketSize\<close> bytes, so a longer
  datagram is cut.
\<close>

datatype listen_result = Break | Return "(error + packet option) go"

fun listen :: "Client \<Rightarrow> packet \<Rightarrow> chkfun \<Rightarrow> read_result list
                 \<Rightarrow> (listen_result \<times> read_result list) option" where
  "listen c rqst fchk [] = Some (Break, [])"
| "listen c rqst fchk (Timeout # rs) = Some (Break, rs)"
| "listen c rqst fchk (ReadErr e # rs) = Some (Return (Ret (Inl (Transport e))), rs)"
| "listen c rqst fchk (Datagram d peerAddr # rs) =
     (case parsePackage (take maxPacketSize d) of
        None \<Rightarrow> None
      | Some Panic \<Rightarrow> Some (Return Panic, rs)
      | Some (Ret (Inl err)) \<Rightarrow> Some (Return (Ret (Inl err)), rs)
      | Some (Ret (Inr p)) \<Rightarrow>
          if transID rqst \<noteq> transID p then listen c rqst fchk rs
          else (case fchk c (p\<lparr>orgHost := Some peerAddr\<rparr>) of
                  Panic \<Rightarrow> Some (Return Panic, rs)
                | Ret False \<Rightarrow> listen c rqst fchk rs
                | Ret True \<Rightarrow> Some (Return (Ret (Inr (Some (p\<lparr>orgHost := Some peerAddr\<rparr>)))), rs)))"

text \<open>The doubling of lines 79 to 81.\<close>

definition backoff :: "int \<Rightarrow> int" where
  "backoff timeout = (if timeout < maxTimeoutMs then timeout * 2 else timeout)"

text \<open>The outer loop \<open>for i := 0; i < maxRetransmitNum; i++\<close>, entered with \<open>i\<close> and \<open>timeout\<close>.\<close>

function retransmit :: "nat \<Rightarrow> int \<Rightarrow> Client \<Rightarrow> packet \<Rightarrow> byte list \<Rightarrow> udp_addr option
    \<Rightarrow> chkfun \<Rightarrow> world \<Rightarrow> ((error + packet option) go \<times> world) option" where
  "retransmit i timeout c rqst rqstPkgData srvAddr fchk w =
     (if i < maxRetransmitNum then
        (let w1 = w\<lparr>n_write := n_write w + 1, trace := trace w @ [Sent rqstPkgData srvAddr]\<rparr>
         in case writes w (n_write w) rqstPkgData srvAddr of
              WriteErr e \<Rightarrow> Some (Ret (Inl (Transport e)), w1)
            | Written len \<Rightarrow>
               if len \<noteq> length rqstPkgData then Some (Ret (Inl SendLength), w1)
               else
                (let w2 = w1\<lparr>n_deadline := n_deadline w1 + 1,
                              trace := trace w1 @ [Deadline timeout]\<rparr>
                 in case deadlines w (n_deadline w) of
                      Some e \<Rightarrow> Some (Ret (Inl (Transport e)), w2)
                    | None \<Rightarrow>
                       (case listen c rqst fchk (reads w2) of
                          None \<Rightarrow> None
                        | Some (Return r, rs) \<Rightarrow> Some (r, w2\<lparr>reads := rs\<rparr>)
                        | Some (Break, rs) \<Rightarrow>
                            retransmit (i + 1) (backoff timeout) c rqst rqstPkgData srvAddr fchk
                              (w2\<lparr>reads := rs\<rparr>))))
      else Some (Ret (Inr None), w))"
  by pat_completeness auto
termination
  by (relation "measure (\<lambda>(i, _). maxRetransmitNum - i)") auto

declare retransmit.simps [simp del]

text \<open>
  What the connection has been asked to do after \<open>n\<close> attempts that all ended with their
  deadline, the first with \<open>timeout\<close>.
\<close>

fun attempts :: "nat \<Rightarrow> int \<Rightarrow> byte list \<Rightarrow> udp_addr option \<Rightarrow> io_event list" where
  "attempts 0 timeout rqstPkgData srvAddr = []"
| "attempts (Suc n) timeout rqstPkgData srvAddr =
     Sent rqstPkgData srvAddr # Deadline timeout # attempts n (backoff timeout) rqstPkgData srvAddr"

text \<open>The world after one attempt that sent, set its deadline and read up to \<open>rs\<close>.\<close>

definition attempted :: "world \<Rightarrow> byte list \<Rightarrow> udp_addr option \<Rightarrow> int \<Rightarrow> read_result list \<Rightarrow> world" where
  "attempted w rqstPkgData srvAddr timeout rs =
     w\<lparr>n_write := n_write w + 1, n_deadline := n_deadline w + 1,
       trace := trace w @ [Sent rqstPkgData srvAddr, Deadline timeout], reads := rs\<rparr>"

text \<open>
  A read that neither ends the call nor is accepted: the deadline, or a datagram that
  decodes and has another transaction id or is refused by the check.
\<close>

definition unanswered :: "Client \<Rightarrow> packet \<Rightarrow> chkfun \<Rightarrow> read_result \<Rightarrow> bool" where
  "unanswered c rqst fchk r =
     (case r of
        Timeout \<Rightarrow> True
      | ReadErr e \<Rightarrow> False
      | Datagram d peerAddr \<Rightarrow>
         (case parsePackage (take maxPacketSize d) of
            Some (Ret (Inr p)) \<Rightarrow>
              transID rqst \<noteq> transID p \<or> fchk c (p\<lparr>orgHost := Some peerAddr\<rparr>) = Ret False
          | _ \<Rightarrow> False))"

text \<open>A nil request is dereferenced by \<open>rqst.serialize()\<close> before anything is sent.\<close>

definition fsmSendPackageWaitReply :: "Client \<Rightarrow> packet option \<Rightarrow> udp_addr option \<Rightarrow> chkfun
    \<Rightarrow> world \<Rightarrow> ((error + packet option) go \<times> world) option" where
  "fsmSendPackageWaitReply c rqst srvAddr fchk w =
     (case rqst of
        None \<Rightarrow> Some (Panic, w)
      | Some r \<Rightarrow> retransmit 0 defRetransmitIntervalMs c r (serialize r) srvAddr fchk w)"


subsection \<open>The four probes\<close>

text \<open>
  A probe returns the pair \<open>(NATType, error)\<close>, or panics, and leaves the client and the
  world changed. \<open>net.UDPAddr.String\<close>, which the probes compare addresses with (nil
  included), belongs to the Go library: it is the parameter \<open>str\<close>, and since the probes
  only compare its results, the type of the texts is left open.
\<close>

type_synonym probe = "((NATType \<times> error option) go \<times> Client \<times> world) option"

definition fchk1 :: chkfun where
  "fchk1 cli pkg =
     (case getMappedAddr pkg of
        Panic \<Rightarrow> Panic
      | Ret mappedAddr \<Rightarrow>
         (case getChangedAddr pkg of
            Panic \<Rightarrow> Panic
          | Ret changedAddr \<Rightarrow> Ret (\<not> (mappedAddr = None \<or> changedAddr = None))))"

definition doTest1 :: "udp_addr option \<Rightarrow> Client \<Rightarrow> world \<Rightarrow> probe" where
  "doTest1 srvAddr c w =
     (let pkg = buildBindingRequest False False (rand_src w (n_rand w));
          w0 = w\<lparr>n_rand := n_rand w + 1\<rparr>
      in case fsmSendPackageWaitReply c pkg srvAddr fchk1 w0 of
           None \<Rightarrow> None
         | Some (Panic, w') \<Rightarrow> Some (Panic, c, w')
         | Some (Ret (Inl err), w') \<Rightarrow> Some (Ret (NATTypeError, Some err), c, w')
         | Some (Ret (Inr None), w') \<Rightarrow> Some (Ret (NATTypeUdpBlocked, None), c, w')
         | Some (Ret (Inr (Some reply)), w') \<Rightarrow>
            (case getMappedAddr reply of
               Panic \<Rightarrow> Some (Panic, c, w')
             | Ret m \<Rightarrow>
                (case getChangedAddr reply of
                   Panic \<Rightarrow> Some (Panic, c\<lparr>nMappedAddr := m\<rparr>, w')
                 | Ret ch \<Rightarrow>
                     Some (Ret (NATTypeUnknown, None),
                           c\<lparr>nMappedAddr := m, nChangedAddr := ch\<rparr>, w'))))"

definition fchk2 :: "(udp_addr option \<Rightarrow> 's) \<Rightarrow> chkfun" where
  "fchk2 str cli pkg = Ret (str (nChangedAddr cli) = str (orgHost pkg))"

definition doTest2 :: "(udp_addr option \<Rightarrow> 's) \<Rightarrow> udp_addr option \<Rightarrow> Client \<Rightarrow> world \<Rightarrow> probe"
where
  "doTest2 str srvAddr c w =
     (let pkg = buildBindingRequest True True (rand_src w (n_rand w));
          w0 = w\<lparr>n_rand := n_rand w + 1\<rparr>
      in case fsmSendPackageWaitReply c pkg srvAddr (fchk2 str) w0 of
           None \<Rightarrow> None
         | Some (Panic, w') \<Rightarrow> Some (Panic, c, w')
         | Some (Ret (Inl err), w') \<Rightarrow> Some (Ret (NATTypeError, Some err), c, w')
         | Some (Ret (Inr reply), w') \<Rightarrow>
            (let hasPublicIP = (str (nMappedAddr c) = str (nLocalAddr c))
             in case reply of
                  None \<Rightarrow>
                    if hasPublicIP then Some (Ret (NATTypeSymmetricUDPFirewall, None), c, w')
                    else Some (Ret (NATTypeUnknown, None), c, w')
                | Some r \<Rightarrow>
                    if hasPublicIP then Some (Ret (NATTypeOpenInternet, None), c, w')
                    else Some (Ret (NATTypeFullCone, None), c, w')))"

definition fchk3 :: chkfun where
  "fchk3 cli pkg =
     (case getMappedAddr pkg of
        Panic \<Rightarrow> Panic
      | Ret mappedAddr \<Rightarrow> Ret (mappedAddr \<noteq> None))"

definition doTest3 :: "(udp_addr option \<Rightarrow> 's) \<Rightarrow> udp_addr option \<Rightarrow> Client \<Rightarrow> world \<Rightarrow> probe"
where
  "doTest3 str srvAddr c w =
     (let pkg = buildBindingRequest False False (rand_src w (n_rand w));
          w0 = w\<lparr>n_rand := n_rand w + 1\<rparr>
      in case fsmSendPackageWaitReply c pkg srvAddr fchk3 w0 of
           None \<Rightarrow> None
         | Some (Panic, w') \<Rightarrow> Some (Panic, c, w')
         | Some (Ret (Inl err), w') \<Rightarrow> Some (Ret (NATTypeError, Some err), c, w')
         | Some (Ret (Inr None), w') \<Rightarrow> Some (Ret (NATTypeError, Some NoAnswer), c, w')
         | Some (Ret (Inr (Some reply)), w') \<Rightarrow>
            (case getMappedAddr reply of
               Panic \<Rightarrow> Some (Panic, c, w')
             | Ret nmapAddr \<Rightarrow>
                 if str nmapAddr \<noteq> str (nMappedAddr c)
                 then Some (Ret (NATTypeSymmetric, None), c, w')
                 else Some (Ret (NATTypeUnknown, None), c, w')))"

text \<open>
  The check of Test4 reads \<open>pkg.orgHost.Port\<close> and \<open>srvUdpAddr.Port\<close>: either pointer
  being nil is a panic.
\<close>

definition fchk4 :: "udp_addr option \<Rightarrow> chkfun" where
  "fchk4 srvAddr cli pkg =
     (case orgHost pkg of
        None \<Rightarrow> Panic
      | Some h \<Rightarrow>
         (case srvAddr of
            None \<Rightarrow> Panic
          | Some srvUdpAddr \<Rightarrow> Ret (port h \<noteq> port srvUdpAddr)))"

definition doTest4 :: "udp_addr option \<Rightarrow> Client \<Rightarrow> world \<Rightarrow> probe" where
  "doTest4 srvAddr c w =
     (let pkg = buildBindingRequest False True (rand_src w (n_rand w));
          w0 = w\<lparr>n_rand := n_rand w + 1\<rparr>
      in case fsmSendPackageWaitReply c pkg srvAddr (fchk4 srvAddr) w0 of
           None \<Rightarrow> None
         | Some (Panic, w') \<Rightarrow> Some (Panic, c, w')
         | Some (Ret (Inl err), w') \<Rightarrow> Some (Ret (NATTypeError, Some err), c, w')
         | Some (Ret (Inr None), w') \<Rightarrow> Some (Ret (NATTypePortRestricted, None), c, w')
         | Some (Ret (Inr (Some reply)), w') \<Rightarrow> Some (Ret (NATTypeRestricted, None), c, w'))"

text \<open>The test \<open>err != nil || nattyp != NATTypeUnknown\<close> after each probe; a panic ends the run too.\<close>

definition stops :: "(NATType \<times> error option) go \<Rightarrow> bool" where
  "stops r = (case r of Panic \<Rightarrow> True | Ret (nattyp, err) \<Rightarrow> err \<noteq> None \<or> nattyp \<noteq> NATTypeUnknown)"

definition doDetect :: "(udp_addr option \<Rightarrow> 's) \<Rightarrow> Client \<Rightarrow> world \<Rightarrow> probe" where
  "doDetect str c w =
     (case doTest1 (nSrvAddr c) c w of
        None \<Rightarrow> None
      | Some (r1, c1, w1) \<Rightarrow>
         if stops r1 then Some (r1, c1, w1)
         else
          (case doTest2 str (nSrvAddr c1) c1 w1 of
             None \<Rightarrow> None
           | Some (r2, c2, w2) \<Rightarrow>
              if stops r2 then Some (r2, c2, w2)
              else
               (case doTest3 str (nChangedAddr c2) c2 w2 of
                  None \<Rightarrow> None
                | Some (r3, c3, w3) \<Rightarrow>
                   if stops r3 then Some (r3, c3, w3)
                   else doTest4 (nSrvAddr c3) c3 w3)))"


section \<open>Concrete inputs\<close>

text \<open>The Binding Response of \<open>TestParsePackage\<close>, copied from Wireshark into the test.\<close>

definition sample :: "byte list" where
  "sample =
    [0x01, 0x01, 0x00, 0x48, 0xa2, 0x40, 0x02, 0x27, 0xa6, 0xb0, 0x9f, 0x59, 0x70, 0xb5, 0xf0, 0x49,
     0x6e, 0x30, 0xc2, 0x77, 0x00, 0x01, 0x00, 0x08, 0x00, 0x01, 0xb5, 0x59, 0x9a, 0x59, 0x05, 0x01,
     0x00, 0x04, 0x00, 0x08, 0x00, 0x01, 0x0d, 0x96, 0xd8, 0x5d, 0xf6, 0x12, 0x00, 0x05, 0x00, 0x08,
     0x00, 0x01, 0x0d, 0x97, 0xd8, 0x5d, 0xf6, 0x11, 0x80, 0x20, 0x00, 0x08, 0x00, 0x01, 0x17, 0x19,
     0x38, 0x19, 0x07, 0x26, 0x80, 0x22, 0x00, 0x14, 0x56, 0x6f, 0x76, 0x69, 0x64, 0x61, 0x2e, 0x6f,
     0x72, 0x67, 0x20, 0x30, 0x2e, 0x39, 0x38, 0x2d, 0x43, 0x50, 0x43, 0x00]"

text \<open>A packet as \<open>newPacket\<close> returns it when the random bytes are 1 to 12.\<close>

definition fresh :: packet where
  "fresh = \<lparr>types_p = 0, length_p = 0,
            transID = [0xa2, 0x40, 0x02, 0x27, 1, 2, 3, 4, 5, 6, 7, 8, 9, 10, 11, 12],
            attributes = [], orgHost = None\<rparr>"

text \<open>
  A 32-byte reply to \<open>fresh\<close>: a MAPPED-ADDRESS attribute of length 0 and a
  SOURCE-ADDRESS attribute of length 4.
\<close>

definition empty_mapped :: "byte list" where
  "empty_mapped =
    [0x01, 0x01, 0x00, 0x0c, 0xa2, 0x40, 0x02, 0x27, 1, 2, 3, 4, 5, 6, 7, 8, 9, 10, 11, 12,
     0x00, 0x01, 0x00, 0x00, 0x00, 0x04, 0x00, 0x04, 0x01, 0x02, 0x03, 0x04]"

text \<open>A request with two attributes, of raw lengths 3 and 4.\<close>

definition two_attrs :: packet where
  "two_attrs = addAttribute (addAttribute fresh (newAttribute 6 [1, 2, 3])) (newAttribute 3 [0, 0, 0, 6])"

text \<open>Addresses, a client and scripted connections for the examples.\<close>

definition local_addr :: udp_addr where
  "local_addr = \<lparr>ip = [192, 168, 1, 10], port = 50000, zone = []\<rparr>"

definition server_addr :: udp_addr where
  "server_addr = \<lparr>ip = [216, 93, 246, 18], port = 3478, zone = []\<rparr>"

definition changed_addr :: udp_addr where
  "changed_addr = \<lparr>ip = [216, 93, 246, 17], port = 3479, zone = []\<rparr>"

definition client0 :: Client where
  "client0 = \<lparr>nLocalAddr = Some local_addr, nSrvAddr = Some server_addr,
              nChangedAddr = None, nMappedAddr = None\<rparr>"

text \<open>Nothing arrives and nothing fails; the random bytes are those of \<open>fresh\<close>.\<close>

definition quiet :: world where
  "quiet = \<lparr>rand_src = (\<lambda>k. Some [1, 2, 3, 4, 5, 6, 7, 8, 9, 10, 11, 12]), n_rand = 0,
            writes = (\<lambda>k d a. Written (length d)), n_write = 0,
            deadlines = (\<lambda>k. None), n_deadline = 0,
            reads = [], trace = []\<rparr>"

text \<open>The random source fails.\<close>

definition no_rand :: world where
  "no_rand = quiet\<lparr>rand_src := (\<lambda>k. None)\<rparr>"

text \<open>A reply to \<open>fresh\<close> with no attribute, and the sample as the parser returns it.\<close>

definition bare_reply :: "byte list" where
  "bare_reply = [0x01, 0x01, 0x00, 0x00, 0xa2, 0x40, 0x02, 0x27, 1, 2, 3, 4, 5, 6, 7, 8, 9, 10, 11, 12]"

definition sample_packet :: packet where
  "sample_packet =
     \<lparr>types_p = 0x0101, length_p = 144,
      transID = [0xa2, 0x40, 0x02, 0x27, 0xa6, 0xb0, 0x9f, 0x59, 0x70, 0xb5, 0xf0, 0x49, 0x6e, 0x30, 0xc2, 0x77],
      attributes =
        [\<lparr>types_a = 0x0001, length_a = 8, value_a = [0x00, 0x01, 0xb5, 0x59, 0x9a, 0x59, 0x05, 0x01]\<rparr>,
         \<lparr>types_a = 0x0004, length_a = 8, value_a = [0x00, 0x01, 0x0d, 0x96, 0xd8, 0x5d, 0xf6, 0x12]\<rparr>,
         \<lparr>types_a = 0x0005, length_a = 8, value_a = [0x00, 0x01, 0x0d, 0x97, 0xd8, 0x5d, 0xf6, 0x11]\<rparr>,
         \<lparr>types_a = 0x8020, length_a = 8, value_a = [0x00, 0x01, 0x17, 0x19, 0x38, 0x19, 0x07, 0x26]\<rparr>,
         \<lparr>types_a = 0x8022, length_a = 20,
            value_a = [0x56, 0x6f, 0x76, 0x69, 0x64, 0x61, 0x2e, 0x6f, 0x72, 0x67, 0x20, 0x30, 0x2e, 0x39, 0x38, 0x2d, 0x43, 0x50, 0x43, 0x00]\<rparr>],
      orgHost = None\<rparr>"

text \<open>A datagram of another transaction arrives during the second attempt.\<close>

definition stray :: world where
  "stray = quiet\<lparr>reads := [Timeout, Datagram sample server_addr, Timeout]\<rparr>"

text \<open>
  Replies to \<open>fresh\<close>: with the local address as MAPPED-ADDRESS, with the address of a
  NAT, and two from the changed address, with another mapping and with the same one.
\<close>

definition nat_addr :: udp_addr where
  "nat_addr = \<lparr>ip = [154, 89, 5, 1], port = 46425, zone = []\<rparr>"

definition reply_public :: "byte list" where
  "reply_public =
    [0x01, 0x01, 0x00, 0x18, 0xa2, 0x40, 0x02, 0x27, 1, 2, 3, 4, 5, 6, 7, 8, 9, 10, 11, 12,
     0x00, 0x01, 0x00, 0x08, 0x00, 0x01, 0xc3, 0x50, 192, 168, 1, 10,
     0x00, 0x05, 0x00, 0x08, 0x00, 0x01, 0x0d, 0x97, 216, 93, 246, 17]"

definition reply_nat :: "byte list" where
  "reply_nat =
    [0x01, 0x01, 0x00, 0x18, 0xa2, 0x40, 0x02, 0x27, 1, 2, 3, 4, 5, 6, 7, 8, 9, 10, 11, 12,
     0x00, 0x01, 0x00, 0x08, 0x00, 0x01, 0xb5, 0x59, 154, 89, 5, 1,
     0x00, 0x05, 0x00, 0x08, 0x00, 0x01, 0x0d, 0x97, 216, 93, 246, 17]"

definition reply_nat2 :: "byte list" where
  "reply_nat2 =
    [0x01, 0x01, 0x00, 0x0c, 0xa2, 0x40, 0x02, 0x27, 1, 2, 3, 4, 5, 6, 7, 8, 9, 10, 11, 12,
     0x00, 0x01, 0x00, 0x08, 0x00, 0x01, 0xb5, 0x5a, 154, 89, 5, 1]"

definition reply_nat3 :: "byte list" where
  "reply_nat3 =
    [0x01, 0x01, 0x00, 0x0c, 0xa2, 0x40, 0x02, 0x27, 1, 2, 3, 4, 5, 6, 7, 8, 9, 10, 11, 12,
     0x00, 0x01, 0x00, 0x08, 0x00, 0x01, 0xb5, 0x59, 154, 89, 5, 1]"

text \<open>Nine reads that end with their deadline: one probe without a reply.\<close>

definition nine :: "read_result list" where
  "nine = [Timeout, Timeout, Timeout, Timeout, Timeout, Timeout, Timeout, Timeout, Timeout]"

text \<open>Four scripted runs of the discovery.\<close>

definition open_net :: world where
  "open_net = quiet\<lparr>reads := [Datagram reply_public server_addr, Datagram bare_reply changed_addr]\<rparr>"

definition firewalled :: world where
  "firewalled = quiet\<lparr>reads := [Datagram reply_public server_addr]\<rparr>"

definition symmetric_nat :: world where
  "symmetric_nat = quiet\<lparr>reads := Datagram reply_nat server_addr # nine @ [Datagram reply_nat2 changed_addr]\<rparr>"

definition port_restricted :: world where
  "port_restricted = quiet\<lparr>reads := Datagram reply_nat server_addr # nine @ [Datagram reply_nat3 changed_addr]\<rparr>"

section \<open>Properties of the codec\<close>

subsection \<open>16-bit arithmetic\<close>

lemma Uint16_PutUint16: "Uint16 (PutUint16 w) = Some w"
  unfolding Uint16_def PutUint16_def
  apply simp
  apply (rule bit_word_eqI)
  apply (auto simp: bit_simps)
  done

lemma unat_u16_lt: "unat (w :: uint16) < 65536"
  using unsigned_less [of w, where 'a = nat] by simp

lemma unat_of_nat16: "n < 65536 \<Longrightarrow> unat (word_of_nat n :: uint16) = n"
  by (simp add: unat_of_nat)

lemma unat_add16: "unat (a :: uint16) + unat b < 65536 \<Longrightarrow> unat (a + b) = unat a + unat b"
  using unat_add_lem [of a b] by simp

lemma unat_add16_wrap: "65536 \<le> unat (a :: uint16) + unat b \<Longrightarrow> unat (a + b) = unat a + unat b - 65536"
proof -
  assume h: "65536 \<le> unat a + unat b"
  have "unat a + unat b < 2 * 65536" using unat_u16_lt [of a] unat_u16_lt [of b] by arith
  with h have "(unat a + unat b) mod 65536 = unat a + unat b - 65536"
    by (simp add: mod_if)
  then show ?thesis by (simp add: unat_word_ariths)
qed

lemma unat_align: "unat n \<le> 65532 \<Longrightarrow> unat (align n) = 4 * ((unat n + 3) div 4)"
proof -
  assume "unat n \<le> 65532"
  then have "4 * ((unat n + 3) div 4) < 65536" by arith
  then show ?thesis unfolding align_def by (rule unat_of_nat16)
qed

lemma align_mult4: "unat n mod 4 = 0 \<Longrightarrow> align n = n"
proof -
  assume "unat n mod 4 = 0"
  then have "4 * ((unat n + 3) div 4) = unat n" by arith
  then show ?thesis by (simp add: align_def)
qed

lemma unat_plus4: "unat (pos::uint16) \<le> 65518 \<Longrightarrow> unat (pos + 4) = unat pos + 4"
  using unat_add16 [of pos 4] by simp

lemma unat_plus2: "unat (pos::uint16) \<le> 65518 \<Longrightarrow> unat (pos + 2) = unat pos + 2"
  using unat_add16 [of pos 2] by simp

lemma slice_Uint16:
  "q = p + 2 \<Longrightarrow> q \<le> length d \<Longrightarrow> Option.bind (slice d p q) Uint16 = Some (rd16 d p)"
  by (simp add: slice_def Uint16_def rd16_def)

lemma parse_step_nat:
  assumes n: "length d \<le> 65515" and p: "unat pos \<le> length d + 3"
  shows "parse_step d pos pkt =
    (if unat pos + 4 < length d then
       (if length d < unat pos + 4 + unat (rd16 d (unat pos + 2))
        then Stop (Ret (Inl FormatMismatch))
        else Next (pos + (align (rd16 d (unat pos + 2)) + 4))
                  (addAttribute pkt (newAttribute (rd16 d (unat pos))
                     (take (unat (rd16 d (unat pos + 2))) (drop (unat pos + 4) d)))))
     else Stop (Ret (Inr pkt)))"
proof -
  let ?n = "length d" and ?p = "unat pos"
  have p4: "unat (pos + 4) = ?p + 4" using n p by (intro unat_plus4) arith
  have p2: "unat (pos + 2) = ?p + 2" using n p by (intro unat_plus2) arith
  have ln: "unat (word_of_nat ?n :: uint16) = ?n" using n by (intro unat_of_nat16) arith
  have guard: "(pos + 4 < word_of_nat ?n) = (?p + 4 < ?n)"
    by (simp add: word_less_nat_alt p4 ln)
  show ?thesis
  proof (cases "?p + 4 < ?n")
    case False
    then show ?thesis by (simp add: parse_step_def guard)
  next
    case True
    define len where "len = rd16 d (?p + 2)"
    define ty where "ty = rd16 d ?p"
    have t: "Option.bind (slice d ?p (unat (pos + 2))) Uint16 = Some ty"
      unfolding p2 ty_def using True by (intro slice_Uint16) simp_all
    have l: "Option.bind (slice d (unat (pos + 2)) (unat (pos + 4))) Uint16 = Some len"
      unfolding p2 p4 len_def using True by (intro slice_Uint16) simp_all
    have step: "parse_step d pos pkt =
       (if length d < unat pos + 4 + unat len
        then Stop (Ret (Inl FormatMismatch))
        else Next (pos + (align len + 4))
                  (addAttribute pkt (newAttribute ty (take (unat len) (drop (unat pos + 4) d)))))"
    proof (cases "?n < ?p + 4 + unat len")
      case over: True
      have "pos + 4 + len < pos + 4 \<or> word_of_nat ?n < pos + 4 + len"
      proof (cases "unat (pos + 4) + unat len < 65536")
        case True
        then have "unat (pos + 4 + len) = ?p + 4 + unat len"
          using unat_add16 [of "pos + 4" len] by (simp add: p4)
        with over show ?thesis by (simp add: word_less_nat_alt ln)
      next
        case False
        then have "unat (pos + 4 + len) = unat (pos + 4) + unat len - 65536"
          using unat_add16_wrap [of "pos + 4" len] by simp
        moreover have "unat len < 65536" by (rule unat_u16_lt)
        moreover note False
        ultimately have "unat (pos + 4 + len) < unat (pos + 4)" by linarith
        then have "pos + 4 + len < pos + 4" by (simp only: word_less_nat_alt)
        then show ?thesis by (rule disjI1)
      qed
      with True over show ?thesis
        by (simp add: parse_step_def guard t l Let_def)
    next
      case fits: False
      then have s: "unat (pos + 4) + unat len < 65536" using n by (simp add: p4)
      then have e: "unat (pos + 4 + len) = ?p + 4 + unat len"
        using unat_add16 [of "pos + 4" len] by (simp add: p4)
      have c: "\<not> (pos + 4 + len < pos + 4 \<or> word_of_nat ?n < pos + 4 + len)"
        unfolding word_less_nat_alt e p4 ln using fits by arith
      have v: "slice d (unat (pos + 4)) (unat (pos + 4 + len))
                 = Some (take (unat len) (drop (?p + 4) d))"
        unfolding e p4 using fits by (simp add: slice_def)
      from True fits c show ?thesis
        by (simp add: parse_step_def guard t l Let_def v)
    qed
    with True show ?thesis by (simp add: len_def ty_def)
  qed
qed


lemma align_le: "unat n \<le> 65532 \<Longrightarrow> unat n \<le> unat (align n) \<and> unat (align n) \<le> unat n + 3"
  by (simp add: unat_align)

lemma unat_next_pos:
  assumes "length d \<le> 65515" and "unat pos + 4 + unat len \<le> length d"
  shows "unat (pos + (align len + 4)) = unat pos + 4 + unat (align len)"
proof -
  have l: "unat len \<le> 65511" using assms by arith
  then have "unat len \<le> 65532" by arith
  then have a: "unat (align len) \<le> unat len + 3" using align_le by blast
  then have "unat (align len) + unat (4 :: uint16) < 65536" using l by simp
  then have "unat (align len + 4) = unat (align len) + 4"
    using unat_add16 [of "align len" 4] by simp
  moreover from this have "unat pos + unat (align len + 4) < 65536" using a assms by arith
  ultimately show ?thesis using unat_add16 [of pos "align len + 4"] by simp
qed

lemma parse_step_Stop:
  assumes "length d \<le> 65515" and "unat pos \<le> length d + 3"
    and "parse_step d pos pkt = Stop r"
  shows "r = Ret (Inl FormatMismatch) \<or> r = Ret (Inr pkt)"
  using assms(3) unfolding parse_step_nat [OF assms(1,2)]
  by (auto split: if_splits)

lemma parse_step_Next:
  assumes "length d \<le> 65515" and "unat pos \<le> length d + 3"
    and "parse_step d pos pkt = Next pos' pkt'"
  shows "unat pos < unat pos' \<and> unat pos' \<le> length d + 3"
proof -
  define len where "len = rd16 d (unat pos + 2)"
  from assms(3) have f: "unat pos + 4 + unat len \<le> length d" and p': "pos' = pos + (align len + 4)"
    unfolding parse_step_nat [OF assms(1,2)] len_def by (auto split: if_splits)
  have "unat len \<le> 65532" using f assms(1) by arith
  then have "unat (align len) \<le> unat len + 3" using align_le by blast
  with f show ?thesis unfolding p' unat_next_pos [OF assms(1) f] by arith
qed

lemma parse_attrs_Stop: "parse_step d pos pkt = Stop r \<Longrightarrow> parse_attrs d pos pkt = Some r"
  by (subst parse_attrs.simps) simp

lemma parse_attrs_Next:
  "parse_step d pos pkt = Next pos' pkt' \<Longrightarrow> parse_attrs d pos pkt = parse_attrs d pos' pkt'"
  by (subst parse_attrs.simps) simp

lemma parse_attrs_total:
  assumes n: "length d \<le> 65515"
  shows "unat pos \<le> length d + 3 \<Longrightarrow> \<exists>r. parse_attrs d pos pkt = Some (Ret r)"
proof (induction "length d + 4 - unat pos" arbitrary: pos pkt rule: less_induct)
  case less
  show ?case
  proof (cases "parse_step d pos pkt")
    case (Stop r)
    with parse_step_Stop [OF n less.prems Stop] show ?thesis
      by (auto simp: parse_attrs_Stop)
  next
    case (Next pos' pkt')
    from parse_step_Next [OF n less.prems Next]
    have "length d + 4 - unat pos' < length d + 4 - unat pos" and "unat pos' \<le> length d + 3"
      using less.prems by arith+
    then have "\<exists>r. parse_attrs d pos' pkt' = Some (Ret r)" by (rule less.hyps)
    then show ?thesis by (simp add: parse_attrs_Next [OF Next])
  qed
qed

lemma parsePackage_cases:
  "parsePackage bs =
     (if length bs < 20 then Some (Ret (Inl TooShort))
      else if length bs > 65535 then Some (Ret (Inl TooLong))
      else parse_attrs (drop 20 bs) 0
             \<lparr>types_p = rd16 bs 0, length_p = rd16 bs 2, transID = take 16 (drop 4 bs),
              attributes = [], orgHost = None\<rparr>)"
proof -
  have "20 \<le> length bs \<Longrightarrow> Option.bind (slice bs 0 2) Uint16 = Some (rd16 bs 0)"
    by (intro slice_Uint16) simp_all
  moreover have "20 \<le> length bs \<Longrightarrow> Option.bind (slice bs 2 4) Uint16 = Some (rd16 bs 2)"
    by (intro slice_Uint16) simp_all
  moreover have "20 \<le> length bs \<Longrightarrow> slice bs 4 20 = Some (take 16 (drop 4 bs))"
    by (simp add: slice_def)
  moreover have "slice bs 20 (length bs) = (if 20 \<le> length bs then Some (drop 20 bs) else None)"
    by (simp add: slice_def)
  ultimately show ?thesis by (simp add: parsePackage_def)
qed

lemma parsePackage_total: "\<exists>r. parsePackage bs = Some (Ret r)"
proof (cases "length bs < 20 \<or> length bs > 65535")
  case True
  then show ?thesis by (auto simp: parsePackage_cases)
next
  case False
  then have "length (drop 20 bs) \<le> 65515" by simp arith
  from parse_attrs_total [OF this, of 0] False show ?thesis
    by (simp add: parsePackage_cases)
qed


subsection \<open>Serialized attributes are parsed back\<close>

lemma pad_mod: "(n + (4 - n mod 4) mod 4) mod 4 = (0::nat)"
proof -
  define r where "r = n mod 4"
  have "r < 4" by (simp add: r_def)
  then consider "r = 0" | "r = 1" | "r = 2" | "r = 3" by arith
  then have "(r + (4 - r) mod 4) mod 4 = 0" by cases simp_all
  moreover have "(n + (4 - r) mod 4) mod 4 = (r + (4 - r) mod 4) mod 4"
    unfolding r_def by (rule mod_add_left_eq [symmetric])
  ultimately show ?thesis by (simp only: r_def)
qed

lemma length_padding: "length (padding v) mod 4 = 0 \<and> length v \<le> length (padding v) \<and> length (padding v) < length v + 4"
  by (simp add: padding_def pad_mod)

lemma padding_id: "length v mod 4 = 0 \<Longrightarrow> padding v = v"
  by (simp add: padding_def)

lemma padding_idem: "padding (padding v) = padding v"
  by (rule padding_id) (simp add: length_padding)

lemma padded_newAttribute: "padded (newAttribute t raw)"
  by (simp add: padded_def newAttribute_def padding_idem)

lemma paddedD:
  assumes "padded a"
  shows "length (value_a a) mod 4 = 0" and "length_a a = word_of_nat (length (value_a a))"
proof -
  from assms have v: "value_a a = padding (value_a a)"
    unfolding padded_def newAttribute_def by (cases a) simp
  then show "length (value_a a) mod 4 = 0" using length_padding [of "value_a a"] by simp
  from assms have "length_a a = word_of_nat (length (padding (value_a a)))"
    unfolding padded_def newAttribute_def by (cases a) simp
  with v show "length_a a = word_of_nat (length (value_a a))" by simp
qed

lemma rd16_PutUint16: "length pre = p \<Longrightarrow> rd16 (pre @ PutUint16 w @ rest) p = w"
  using Uint16_PutUint16 [of w]
  by (auto simp: rd16_def Uint16_def PutUint16_def nth_append)

lemma length_PutUint16: "length (PutUint16 w) = 2" by (simp add: PutUint16_def)

lemma length_serialize_attr: "length (serialize_attr a) = 4 + length (value_a a)"
  by (simp add: serialize_attr_def length_PutUint16)

lemma parse_attrs_serialized:
  assumes "length (pre @ concat (map serialize_attr as)) \<le> 65515"
      and "\<forall>a\<in>set as. padded a"
      and "as \<noteq> [] \<longrightarrow> value_a (last as) \<noteq> []"
  shows "parse_attrs (pre @ concat (map serialize_attr as)) (word_of_nat (length pre)) pkt
           = Some (Ret (Inr (foldl addAttribute pkt as)))"
  using assms
proof (induction as arbitrary: pre pkt)
  case Nil
  have "parse_step pre (word_of_nat (length pre)) pkt = Stop (Ret (Inr pkt))"
    using Nil.prems(1) by (subst parse_step_nat) (simp_all add: unat_of_nat16)
  then show ?case by (simp add: parse_attrs_Stop)
next
  case (Cons a as)
  define rest where "rest = concat (map serialize_attr as)"
  define d where "d = pre @ serialize_attr a @ rest"
  define pos :: uint16 where "pos = word_of_nat (length pre)"
  define v where "v = value_a a"
  have pa: "padded a" using Cons.prems(2) by simp
  have n: "length d \<le> 65515" using Cons.prems(1) by (simp add: d_def rest_def)
  have dl: "length d = length pre + 4 + length v + length rest"
    by (simp add: d_def length_serialize_attr v_def)
  have up: "unat pos = length pre" unfolding pos_def using n dl by (intro unat_of_nat16) arith
  have vl: "length_a a = word_of_nat (length v)" and v4: "length v mod 4 = 0"
    using paddedD [OF pa] by (simp_all add: v_def)
  have ul: "unat (length_a a) = length v" unfolding vl using n dl by (intro unat_of_nat16) arith
  have more: "0 < length v + length rest"
  proof (cases as)
    case Nil
    with Cons.prems(3) show ?thesis by (simp add: v_def)
  next
    case (Cons b bs)
    then show ?thesis by (simp add: rest_def length_serialize_attr)
  qed
  have ty: "rd16 d (unat pos) = types_a a"
    unfolding up d_def serialize_attr_def by (simp add: rd16_PutUint16)
  have ln: "rd16 d (unat pos + 2) = length_a a"
  proof -
    have e: "d = (pre @ PutUint16 (types_a a)) @ PutUint16 (length_a a) @ (v @ rest)"
      by (simp add: d_def serialize_attr_def v_def)
    have "length (pre @ PutUint16 (types_a a)) = unat pos + 2"
      by (simp add: up length_PutUint16)
    then show ?thesis unfolding e by (rule rd16_PutUint16)
  qed
  have val: "take (length v) (drop (length pre + 4) d) = v"
    by (simp add: d_def serialize_attr_def length_PutUint16 v_def)
  have na: "newAttribute (types_a a) v = a" using pa by (simp add: padded_def v_def)
  have al: "align (length_a a) = length_a a" using v4 by (intro align_mult4) (simp add: ul)
  have pb: "unat pos \<le> length d + 3" by (simp add: up dl)
  have g: "unat pos + 4 < length d" using more by (simp add: up dl)
  have f: "\<not> length d < unat pos + 4 + length v" by (simp add: up dl)
  have step: "parse_step d pos pkt = Next (pos + (length_a a + 4)) (addAttribute pkt a)"
    unfolding parse_step_nat [OF n pb] ln ty ul al
    using g f by (simp add: up val na)
  have pos': "pos + (length_a a + 4) = word_of_nat (length (pre @ serialize_attr a))"
    by (simp add: pos_def vl length_serialize_attr v_def)
  have dc: "pre @ concat (map serialize_attr (a # as)) = d"
    by (simp add: d_def rest_def)
  have dc': "(pre @ serialize_attr a) @ concat (map serialize_attr as) = d"
    by (simp add: d_def rest_def)
  have "parse_attrs ((pre @ serialize_attr a) @ concat (map serialize_attr as))
          (word_of_nat (length (pre @ serialize_attr a))) (addAttribute pkt a)
        = Some (Ret (Inr (foldl addAttribute (addAttribute pkt a) as)))"
    using Cons.prems by (intro Cons.IH) (auto split: if_splits)
  then have "parse_attrs d (pos + (length_a a + 4)) (addAttribute pkt a)
        = Some (Ret (Inr (foldl addAttribute (addAttribute pkt a) as)))"
    unfolding dc' pos' .
  then have "parse_attrs d pos pkt = Some (Ret (Inr (foldl addAttribute pkt (a # as))))"
    using parse_attrs_Next [OF step] by simp
  then show ?case unfolding dc pos_def .
qed



subsection \<open>Evaluation on concrete inputs\<close>

lemmas parse_eval = parsePackage_def slice_def Uint16_def parse_attrs.simps parse_step_def Let_def
  newAttribute_def addAttribute_def padding_def align_def

lemma sample_parsed:
  "parsePackage sample = Some (Ret (Inr
     \<lparr>types_p = 0x0101, length_p = 144,
      transID = [0xa2, 0x40, 0x02, 0x27, 0xa6, 0xb0, 0x9f, 0x59, 0x70, 0xb5, 0xf0, 0x49, 0x6e, 0x30, 0xc2, 0x77],
      attributes =
        [\<lparr>types_a = 0x0001, length_a = 8, value_a = [0x00, 0x01, 0xb5, 0x59, 0x9a, 0x59, 0x05, 0x01]\<rparr>,
         \<lparr>types_a = 0x0004, length_a = 8, value_a = [0x00, 0x01, 0x0d, 0x96, 0xd8, 0x5d, 0xf6, 0x12]\<rparr>,
         \<lparr>types_a = 0x0005, length_a = 8, value_a = [0x00, 0x01, 0x0d, 0x97, 0xd8, 0x5d, 0xf6, 0x11]\<rparr>,
         \<lparr>types_a = 0x8020, length_a = 8, value_a = [0x00, 0x01, 0x17, 0x19, 0x38, 0x19, 0x07, 0x26]\<rparr>,
         \<lparr>types_a = 0x8022, length_a = 20,
            value_a = [0x56, 0x6f, 0x76, 0x69, 0x64, 0x61, 0x2e, 0x6f, 0x72, 0x67, 0x20, 0x30, 0x2e, 0x39, 0x38, 0x2d, 0x43, 0x50, 0x43, 0x00]\<rparr>],
      orgHost = None\<rparr>))"
  unfolding sample_def by (simp add: parse_eval)

lemma replicate_small:
  "replicate 2 x = [x, x]" "replicate 3 x = [x, x, x]"
  by (simp_all add: numeral_2_eq_2 numeral_3_eq_3)


lemma sample_mapped:
  "(case parsePackage sample of Some (Ret (Inr p)) \<Rightarrow> getMappedAddr p | _ \<Rightarrow> Panic)
     = Ret (Some \<lparr>ip = [154, 89, 5, 1], port = 46425, zone = []\<rparr>)"
  by (simp add: sample_parsed getMappedAddr_def findAttrAddr_def commAddr_def
        attributeMappedAddress_def slice_def Uint16_def)


subsection \<open>Serializing and parsing a whole packet\<close>

lemma newPacket_fresh: "newPacket (Some [1, 2, 3, 4, 5, 6, 7, 8, 9, 10, 11, 12]) = Inr fresh"
  by (simp add: newPacket_def fresh_def PutUint32_def magicCookie_def)

lemma foldl_addAttribute:
  "foldl addAttribute v as
     = v\<lparr>attributes := attributes v @ as, length_p := length_p v + attrs_size as\<rparr>"
proof (induction as arbitrary: v)
  case Nil
  show ?case by (simp add: attrs_size_def)
next
  case (Cons a as)
  have "foldl addAttribute v (a # as) = foldl addAttribute (addAttribute v a) as" by simp
  also have "\<dots> = (addAttribute v a)\<lparr>attributes := attributes (addAttribute v a) @ as,
                 length_p := length_p (addAttribute v a) + attrs_size as\<rparr>"
    by (rule Cons.IH)
  also have "\<dots> = v\<lparr>attributes := attributes v @ a # as,
                 length_p := length_p v + attrs_size (a # as)\<rparr>"
    by (simp add: addAttribute_def attrs_size_def add.assoc)
  finally show ?case .
qed

lemma length_serialize:
  "length (serialize v) = 4 + length (transID v) + length (concat (map serialize_attr (attributes v)))"
  by (simp add: serialize_def length_PutUint16)

lemma serialize_header:
  assumes "length (transID v) = 16"
  shows "rd16 (serialize v) 0 = types_p v" and "rd16 (serialize v) 2 = length_p v"
    and "take 16 (drop 4 (serialize v)) = transID v"
    and "drop 20 (serialize v) = concat (map serialize_attr (attributes v))"
proof -
  show "rd16 (serialize v) 0 = types_p v"
    unfolding serialize_def using rd16_PutUint16 [of "[]" 0] by simp
  have "serialize v = PutUint16 (types_p v) @ PutUint16 (length_p v)
          @ (transID v @ concat (map serialize_attr (attributes v)))"
    by (simp add: serialize_def)
  moreover have "length (PutUint16 (types_p v)) = 2" by (rule length_PutUint16)
  ultimately show "rd16 (serialize v) 2 = length_p v" by (simp only: rd16_PutUint16)
  show "take 16 (drop 4 (serialize v)) = transID v"
    using assms by (simp add: serialize_def length_PutUint16)
  show "drop 20 (serialize v) = concat (map serialize_attr (attributes v))"
    using assms by (simp add: serialize_def length_PutUint16)
qed

lemma parse_serialize:
  assumes tid: "length (transID v) = 16"
      and pad: "\<forall>a\<in>set (attributes v). padded a"
      and size: "length (serialize v) \<le> 65535"
      and last: "attributes v \<noteq> [] \<longrightarrow> value_a (last (attributes v)) \<noteq> []"
  shows "parsePackage (serialize v) =
           Some (Ret (Inr (v\<lparr>length_p := length_p v + attrs_size (attributes v), orgHost := None\<rparr>)))"
proof -
  let ?body = "concat (map serialize_attr (attributes v))"
  have len: "length (serialize v) = 20 + length ?body" using tid by (simp add: length_serialize)
  then have b: "length ([] @ ?body) \<le> 65515" using size by simp
  have "parse_attrs ([] @ ?body) (word_of_nat (length ([] :: byte list)))
          \<lparr>types_p = types_p v, length_p = length_p v, transID = transID v,
           attributes = [], orgHost = None\<rparr>
        = Some (Ret (Inr (foldl addAttribute
            \<lparr>types_p = types_p v, length_p = length_p v, transID = transID v,
             attributes = [], orgHost = None\<rparr> (attributes v))))"
    using b pad last by (rule parse_attrs_serialized)
  then show ?thesis
    using len size
    by (simp add: parsePackage_cases serialize_header [OF tid] foldl_addAttribute)
qed


subsection \<open>The length field while a packet is built\<close>

lemma newPacket_length: "newPacket rnd = Inr v \<Longrightarrow> length_p v = attrs_size (attributes v)"
  by (auto simp: newPacket_def attrs_size_def split: option.splits)

lemma addAttribute_length:
  "length_p v = attrs_size (attributes v)
     \<Longrightarrow> length_p (addAttribute v a) = attrs_size (attributes (addAttribute v a))"
  by (simp add: addAttribute_def attrs_size_def)


text \<open>A parsed packet: the declared length of the header plus the sum over the attributes.\<close>

lemma parse_attrs_length:
  assumes n: "length d \<le> 65515"
  shows "unat pos \<le> length d + 3 \<Longrightarrow> parse_attrs d pos pkt = Some (Ret (Inr p)) \<Longrightarrow>
         length_p p - attrs_size (attributes p) = length_p pkt - attrs_size (attributes pkt)"
proof (induction "length d + 4 - unat pos" arbitrary: pos pkt rule: less_induct)
  case less
  show ?case
  proof (cases "parse_step d pos pkt")
    case (Stop r)
    with parse_step_Stop [OF n less.prems(1) Stop] less.prems(2) show ?thesis
      by (auto simp: parse_attrs_Stop)
  next
    case (Next pos' pkt')
    from parse_step_Next [OF n less.prems(1) Next]
    have m: "length d + 4 - unat pos' < length d + 4 - unat pos" and b: "unat pos' \<le> length d + 3"
      using less.prems(1) by arith+
    from Next obtain a where a: "pkt' = addAttribute pkt a"
      unfolding parse_step_nat [OF n less.prems(1)] by (auto split: if_splits)
    from less.prems(2) have "parse_attrs d pos' pkt' = Some (Ret (Inr p))"
      by (simp add: parse_attrs_Next [OF Next])
    from less.hyps [OF m b this]
    show ?thesis by (simp add: a addAttribute_def attrs_size_def)
  qed
qed

lemma parsed_length:
  assumes "parsePackage bs = Some (Ret (Inr p))"
  shows "length_p p = rd16 bs 2 + attrs_size (attributes p)"
proof -
  from assms have l: "\<not> length bs < 20" "\<not> 65535 < length bs"
    by (auto simp: parsePackage_cases split: if_splits)
  then have n: "length (drop 20 bs) \<le> 65515" by simp
  from assms l have "parse_attrs (drop 20 bs) 0
             \<lparr>types_p = rd16 bs 0, length_p = rd16 bs 2, transID = take 16 (drop 4 bs),
              attributes = [], orgHost = None\<rparr> = Some (Ret (Inr p))"
    by (simp add: parsePackage_cases)
  from parse_attrs_length [OF n _ this]
  have "length_p p - attrs_size (attributes p) = rd16 bs 2" by (simp add: attrs_size_def)
  then show ?thesis by (simp add: algebra_simps)
qed


section \<open>Properties of the retransmission engine\<close>

lemma listen_Datagram:
  "parsePackage (take maxPacketSize d) = Some (Ret (Inr p)) \<Longrightarrow>
   listen c rqst fchk (Datagram d peerAddr # rs) =
     (if transID rqst \<noteq> transID p then listen c rqst fchk rs
      else (case fchk c (p\<lparr>orgHost := Some peerAddr\<rparr>) of
              Panic \<Rightarrow> Some (Return Panic, rs)
            | Ret False \<Rightarrow> listen c rqst fchk rs
            | Ret True \<Rightarrow> Some (Return (Ret (Inr (Some (p\<lparr>orgHost := Some peerAddr\<rparr>)))), rs)))"
  by simp

lemma listen_decode_error:
  "parsePackage (take maxPacketSize d) = Some (Ret (Inl err)) \<Longrightarrow>
   listen c rqst fchk (Datagram d peerAddr # rs) = Some (Return (Ret (Inl err)), rs)"
  by simp

lemma listen_total: "\<exists>r rs'. listen c rqst fchk rs = Some (r, rs')"
proof (induction rs)
  case Nil
  show ?case by simp
next
  case (Cons x rs)
  show ?case
  proof (cases x)
    case (Datagram d peerAddr)
    obtain r where "parsePackage (take maxPacketSize d) = Some (Ret r)"
      using parsePackage_total by blast
    with Cons.IH Datagram show ?thesis
      by (cases r) (auto split: go.splits bool.splits)
  qed simp_all
qed

lemma listen_unanswered:
  "\<forall>r\<in>set rs. unanswered c rqst fchk r \<Longrightarrow>
   \<exists>rs'. listen c rqst fchk rs = Some (Break, rs') \<and> set rs' \<subseteq> set rs"
proof (induction rs)
  case Nil
  show ?case by simp
next
  case (Cons x rs)
  then obtain rs' where ih: "listen c rqst fchk rs = Some (Break, rs')" "set rs' \<subseteq> set rs"
    by auto
  show ?case
  proof (cases x)
    case Timeout
    then show ?thesis by auto
  next
    case (ReadErr e)
    with Cons.prems show ?thesis by (simp add: unanswered_def)
  next
    case (Datagram d peerAddr)
    with Cons.prems have u: "unanswered c rqst fchk (Datagram d peerAddr)" by simp
    then obtain p where p: "parsePackage (take maxPacketSize d) = Some (Ret (Inr p))"
      and rej: "transID rqst \<noteq> transID p \<or> fchk c (p\<lparr>orgHost := Some peerAddr\<rparr>) = Ret False"
      by (auto simp: unanswered_def split: option.splits go.splits sum.splits)
    from rej have "listen c rqst fchk (Datagram d peerAddr # rs) = listen c rqst fchk rs"
      by (auto simp: p)
    with ih Datagram show ?thesis by auto
  qed
qed


lemma listen_Return: "listen c rqst fchk rs = Some (Return r, rs') \<Longrightarrow> r \<noteq> Ret (Inr None)"
proof (induction rs)
  case Nil
  then show ?case by simp
next
  case (Cons x rs)
  show ?case
  proof (cases x)
    case (Datagram d peerAddr)
    with Cons show ?thesis
      by (auto split: option.splits go.splits sum.splits if_splits bool.splits)
  qed (use Cons in auto)
qed

lemma retransmit_step:
  assumes "i < maxRetransmitNum"
      and "writes w (n_write w) rqstPkgData srvAddr = Written (length rqstPkgData)"
      and "deadlines w (n_deadline w) = None"
      and "listen c rqst fchk (reads w) = Some (lr, rs)"
  shows "retransmit i timeout c rqst rqstPkgData srvAddr fchk w =
           (case lr of
              Return r \<Rightarrow> Some (r, attempted w rqstPkgData srvAddr timeout rs)
            | Break \<Rightarrow> retransmit (i + 1) (backoff timeout) c rqst rqstPkgData srvAddr fchk
                         (attempted w rqstPkgData srvAddr timeout rs))"
  by (subst retransmit.simps) (simp add: assms Let_def attempted_def split: listen_result.splits)

lemma retransmit_done:
  "\<not> i < maxRetransmitNum \<Longrightarrow>
   retransmit i timeout c rqst rqstPkgData srvAddr fchk w = Some (Ret (Inr None), w)"
  by (subst retransmit.simps) simp

lemma retransmit_unanswered:
  assumes wr: "\<forall>k. writes w k rqstPkgData srvAddr = Written (length rqstPkgData)"
      and dl: "\<forall>k. deadlines w k = None"
      and rd: "\<forall>r\<in>set (reads w). unanswered c rqst fchk r"
  shows "\<exists>w'. retransmit i timeout c rqst rqstPkgData srvAddr fchk w = Some (Ret (Inr None), w')
              \<and> trace w' = trace w @ attempts (maxRetransmitNum - i) timeout rqstPkgData srvAddr"
  using assms
proof (induction "maxRetransmitNum - i" arbitrary: i timeout w)
  case 0
  then have "\<not> i < maxRetransmitNum" by simp
  with 0 show ?case by (simp add: retransmit_done)
next
  case (Suc n)
  then have lt: "i < maxRetransmitNum" and n: "n = maxRetransmitNum - (i + 1)" by arith+
  from listen_unanswered [OF Suc.prems(3)]
  obtain rs where l: "listen c rqst fchk (reads w) = Some (Break, rs)" and sub: "set rs \<subseteq> set (reads w)"
    by blast
  let ?w = "attempted w rqstPkgData srvAddr timeout rs"
  have step: "retransmit i timeout c rqst rqstPkgData srvAddr fchk w
        = retransmit (i + 1) (backoff timeout) c rqst rqstPkgData srvAddr fchk ?w"
    using retransmit_step [OF lt _ _ l] Suc.prems(1,2) by simp
  have "\<exists>w'. retransmit (i + 1) (backoff timeout) c rqst rqstPkgData srvAddr fchk ?w
               = Some (Ret (Inr None), w')
            \<and> trace w' = trace ?w @ attempts (maxRetransmitNum - (i + 1)) (backoff timeout) rqstPkgData srvAddr"
    using Suc.prems sub by (intro Suc.hyps(1) n) (auto simp: attempted_def)
  moreover have "maxRetransmitNum - i = Suc (maxRetransmitNum - (i + 1))" using lt by arith
  ultimately show ?case by (simp add: step attempted_def)
qed

lemma retransmit_no_reply:
  "retransmit i timeout c rqst rqstPkgData srvAddr fchk w = Some (Ret (Inr None), w') \<Longrightarrow>
   trace w' = trace w @ attempts (maxRetransmitNum - i) timeout rqstPkgData srvAddr"
proof (induction "maxRetransmitNum - i" arbitrary: i timeout w)
  case 0
  then have "\<not> i < maxRetransmitNum" by simp
  with 0 show ?case by (simp add: retransmit_done)
next
  case (Suc n)
  then have lt: "i < maxRetransmitNum" and n: "n = maxRetransmitNum - (i + 1)" by arith+
  have m: "maxRetransmitNum - i = Suc (maxRetransmitNum - (i + 1))" using lt by arith
  obtain lr rs where l: "listen c rqst fchk (reads w) = Some (lr, rs)"
    using listen_total by blast
  from Suc.prems lt
  have wr: "writes w (n_write w) rqstPkgData srvAddr = Written (length rqstPkgData)"
    and dl: "deadlines w (n_deadline w) = None"
    by (subst (asm) retransmit.simps, simp add: Let_def split: write_result.splits if_splits option.splits)+
  note step = retransmit_step [OF lt wr dl l, of timeout]
  show ?case
  proof (cases lr)
    case Break
    with step Suc.prems
    have "retransmit (i + 1) (backoff timeout) c rqst rqstPkgData srvAddr fchk
            (attempted w rqstPkgData srvAddr timeout rs) = Some (Ret (Inr None), w')" by simp
    from Suc.hyps(1) [OF n this] show ?thesis by (simp add: m attempted_def)
  next
    case (Return r)
    with step Suc.prems have "r = Ret (Inr None)" by simp
    with listen_Return l Return show ?thesis by blast
  qed
qed


lemma retransmit_skip:
  assumes "i < maxRetransmitNum"
      and "writes w (n_write w) rqstPkgData srvAddr = Written (length rqstPkgData)"
      and "deadlines w (n_deadline w) = None"
      and "listen c rqst fchk (Datagram d peerAddr # rs) = listen c rqst fchk rs"
  shows "retransmit i timeout c rqst rqstPkgData srvAddr fchk (w\<lparr>reads := Datagram d peerAddr # rs\<rparr>)
       = retransmit i timeout c rqst rqstPkgData srvAddr fchk (w\<lparr>reads := rs\<rparr>)"
proof -
  obtain lr rs' where l: "listen c rqst fchk rs = Some (lr, rs')"
    using listen_total by blast
  have "retransmit i timeout c rqst rqstPkgData srvAddr fchk (w\<lparr>reads := Datagram d peerAddr # rs\<rparr>)
      = (case lr of
           Return r \<Rightarrow> Some (r, attempted (w\<lparr>reads := Datagram d peerAddr # rs\<rparr>) rqstPkgData srvAddr timeout rs')
         | Break \<Rightarrow> retransmit (i + 1) (backoff timeout) c rqst rqstPkgData srvAddr fchk
                      (attempted (w\<lparr>reads := Datagram d peerAddr # rs\<rparr>) rqstPkgData srvAddr timeout rs'))"
    using assms l by (intro retransmit_step) simp_all
  moreover have "retransmit i timeout c rqst rqstPkgData srvAddr fchk (w\<lparr>reads := rs\<rparr>)
      = (case lr of
           Return r \<Rightarrow> Some (r, attempted (w\<lparr>reads := rs\<rparr>) rqstPkgData srvAddr timeout rs')
         | Break \<Rightarrow> retransmit (i + 1) (backoff timeout) c rqst rqstPkgData srvAddr fchk
                      (attempted (w\<lparr>reads := rs\<rparr>) rqstPkgData srvAddr timeout rs'))"
    using assms l by (intro retransmit_step) simp_all
  moreover have "attempted (w\<lparr>reads := Datagram d peerAddr # rs\<rparr>) rqstPkgData srvAddr timeout rs'
      = attempted (w\<lparr>reads := rs\<rparr>) rqstPkgData srvAddr timeout rs'"
    by (simp add: attempted_def)
  ultimately show ?thesis by (cases lr) simp_all
qed

lemma attempts9:
  "attempts 9 100 d a =
     [Sent d a, Deadline 100, Sent d a, Deadline 200, Sent d a, Deadline 400,
      Sent d a, Deadline 800, Sent d a, Deadline 1600, Sent d a, Deadline 1600,
      Sent d a, Deadline 1600, Sent d a, Deadline 1600, Sent d a, Deadline 1600]"
  by (simp add: eval_nat_numeral backoff_def maxTimeoutMs_def)

lemma schedule9:
  "concat (map (\<lambda>k. [Sent d a, Deadline (min (100 * 2 ^ (k - 1)) 1600)]) [1..<10]) = attempts 9 100 d a"
proof -
  have "[1..<10] = [1, 2, 3, 4, 5, 6, 7, 8, 9 :: nat]" by (simp add: upt_rec)
  then show ?thesis by (simp add: attempts9)
qed

lemma quiet_retransmit:
  "\<exists>w'. retransmit 0 100 c rqst d a fchk quiet = Some (Ret (Inr None), w')
        \<and> trace w' = attempts 9 100 d a"
  using retransmit_unanswered [of quiet d a c rqst fchk 0 100]
  by (simp add: quiet_def maxRetransmitNum_def)

subsection \<open>The concrete datagrams\<close>

lemma take_sample: "take maxPacketSize sample = sample"
  by (simp add: maxPacketSize_def sample_def)

lemma sample_packet: "parsePackage sample = Some (Ret (Inr sample_packet))"
  by (simp add: sample_parsed sample_packet_def)

lemma sample_tid: "transID fresh \<noteq> transID sample_packet"
  by (simp add: fresh_def sample_packet_def)

lemma bare_parsed:
  "parsePackage (take maxPacketSize bare_reply)
     = Some (Ret (Inr (fresh\<lparr>types_p := 0x0101\<rparr>)))"
  by (simp add: bare_reply_def maxPacketSize_def parse_eval fresh_def)

lemma bare_refused: "fchk1 c (fresh\<lparr>types_p := 0x0101, orgHost := Some a\<rparr>) = Ret False"
  by (simp add: fchk1_def getMappedAddr_def getChangedAddr_def findAttrAddr_def fresh_def)


section \<open>Properties of the probes\<close>

lemma stops_iff: "stops r \<longleftrightarrow> r \<noteq> Ret (NATTypeUnknown, None)"
  by (auto simp: stops_def split: go.splits)

lemma doTest1_Unknown:
  assumes "doTest1 srvAddr c w = Some (Ret (NATTypeUnknown, None), c1, w1)"
  shows "\<exists>reply m ch.
           fsmSendPackageWaitReply c (buildBindingRequest False False (rand_src w (n_rand w))) srvAddr
              fchk1 (w\<lparr>n_rand := n_rand w + 1\<rparr>) = Some (Ret (Inr (Some reply)), w1)
         \<and> getMappedAddr reply = Ret m \<and> getChangedAddr reply = Ret ch
         \<and> c1 = c\<lparr>nMappedAddr := m, nChangedAddr := ch\<rparr>"
  using assms
  by (auto simp: doTest1_def Let_def split: option.splits go.splits sum.splits prod.splits)

lemma doTest2_reply:
  assumes "fsmSendPackageWaitReply c (buildBindingRequest True True (rand_src w (n_rand w))) srvAddr
              (fchk2 str) (w\<lparr>n_rand := n_rand w + 1\<rparr>) = Some (Ret (Inr reply), w')"
  shows "doTest2 str srvAddr c w =
           Some (Ret (case reply of
                        None \<Rightarrow> if str (nMappedAddr c) = str (nLocalAddr c)
                                then NATTypeSymmetricUDPFirewall else NATTypeUnknown
                      | Some r \<Rightarrow> if str (nMappedAddr c) = str (nLocalAddr c)
                                then NATTypeOpenInternet else NATTypeFullCone, None), c, w')"
  using assms by (simp add: doTest2_def Let_def split: option.splits)


subsection \<open>The scripted runs\<close>

lemmas run_eval = doDetect_def doTest1_def doTest2_def doTest3_def doTest4_def
  fsmSendPackageWaitReply_def retransmit.simps buildBindingRequest_def newPacket_def
  fchk1_def fchk2_def fchk3_def fchk4_def getMappedAddr_def getChangedAddr_def findAttrAddr_def
  commAddr_def stops_def Let_def maxRetransmitNum_def maxPacketSize_def defRetransmitIntervalMs_def
  backoff_def maxTimeoutMs_def attributeMappedAddress_def attributeChangedAddress_def
  msgTypeBindingRequest_def newChangeReqAttribute_def attributeChangeRequest_def
  PutUint32_def magicCookie_def quiet_def client0_def local_addr_def server_addr_def
  changed_addr_def

lemmas data_eval = reply_public_def reply_nat_def reply_nat2_def reply_nat3_def bare_reply_def
  nine_def open_net_def firewalled_def symmetric_nat_def port_restricted_def nat_addr_def

lemma blocked_run:
  "\<exists>c1 w1. doTest1 (nSrvAddr client0) client0 quiet = Some (Ret (NATTypeUdpBlocked, None), c1, w1)"
  by (simp add: run_eval)

lemma open_run:
  "\<exists>c1 w1 reply2 w2.
     doTest1 (nSrvAddr client0) client0 open_net = Some (Ret (NATTypeUnknown, None), c1, w1)
   \<and> fsmSendPackageWaitReply c1 (buildBindingRequest True True (rand_src w1 (n_rand w1)))
        (nSrvAddr c1) (fchk2 id) (w1\<lparr>n_rand := n_rand w1 + 1\<rparr>) = Some (Ret (Inr (Some reply2)), w2)
   \<and> nMappedAddr c1 = nLocalAddr c1"
  by (simp add: run_eval parse_eval data_eval)

lemma firewalled_run:
  "\<exists>c1 w1 w2.
     doTest1 (nSrvAddr client0) client0 firewalled = Some (Ret (NATTypeUnknown, None), c1, w1)
   \<and> fsmSendPackageWaitReply c1 (buildBindingRequest True True (rand_src w1 (n_rand w1)))
        (nSrvAddr c1) (fchk2 id) (w1\<lparr>n_rand := n_rand w1 + 1\<rparr>) = Some (Ret (Inr None), w2)
   \<and> nMappedAddr c1 = nLocalAddr c1"
  by (simp add: run_eval parse_eval data_eval)

lemma symmetric_run:
  "\<exists>c1 w1 w2 c3 w3.
     doTest1 (nSrvAddr client0) client0 symmetric_nat = Some (Ret (NATTypeUnknown, None), c1, w1)
   \<and> fsmSendPackageWaitReply c1 (buildBindingRequest True True (rand_src w1 (n_rand w1)))
        (nSrvAddr c1) (fchk2 id) (w1\<lparr>n_rand := n_rand w1 + 1\<rparr>) = Some (Ret (Inr None), w2)
   \<and> nMappedAddr c1 \<noteq> nLocalAddr c1
   \<and> doTest2 id (nSrvAddr c1) c1 w1 = Some (Ret (NATTypeUnknown, None), c1, w2)
   \<and> doTest3 id (nChangedAddr c1) c1 w2 = Some (Ret (NATTypeSymmetric, None), c3, w3)"
  by (simp add: run_eval parse_eval data_eval)

lemma port_restricted_run:
  "\<exists>c1 w1 w2 c3 w3.
     doTest1 (nSrvAddr client0) client0 port_restricted = Some (Ret (NATTypeUnknown, None), c1, w1)
   \<and> doTest2 id (nSrvAddr c1) c1 w1 = Some (Ret (NATTypeUnknown, None), c1, w2)
   \<and> doTest3 id (nChangedAddr c1) c1 w2 = Some (Ret (NATTypeUnknown, None), c3, w3)
   \<and> map_option fst (doTest4 (nSrvAddr c3) c3 w3) = Some (Ret (NATTypePortRestricted, None))"
  by (simp add: run_eval parse_eval data_eval)


section \<open>Claims about the codec\<close>

text \<open>
  C8. Message parsing is total: on every byte string \<open>parsePackage\<close> returns, with a
  message or an error, and never panics; every slice it takes lies inside the buffer (a
  slice out of range is the value \<open>Panic\<close> of the model). An input shorter than 20 bytes
  fails as too short, one longer than 65535 bytes as too long.
\<close>

theorem parsePackage_never_panics:
  "(\<exists>r. parsePackage pkgData = Some (Ret r)) \<and>
   (length pkgData < 20 \<longrightarrow> parsePackage pkgData = Some (Ret (Inl TooShort))) \<and>
   (65535 < length pkgData \<longrightarrow> parsePackage pkgData = Some (Ret (Inl TooLong)))"
  using parsePackage_total [of pkgData] by (simp add: parsePackage_cases)

text \<open>
  C8, witness: 18 bytes are too short, 65536 bytes are too long, and the sample of the
  test is parsed.
\<close>

theorem parsePackage_never_panics_witness:
  "length (replicate 18 (0::byte)) < 20 \<and>
   parsePackage (replicate 18 0) = Some (Ret (Inl TooShort)) \<and>
   65535 < length (replicate 65536 (0::byte)) \<and>
   parsePackage (replicate 65536 0) = Some (Ret (Inl TooLong)) \<and>
   (\<exists>r. parsePackage sample = Some (Ret r))"
  using parsePackage_never_panics [of "replicate 18 0"]
        parsePackage_never_panics [of "replicate 65536 0"]
        parsePackage_never_panics [of sample]
  by simp

text \<open>
  C5, as amended. Take a message with a 16-byte transaction id whose attributes were made
  by \<open>newAttribute\<close> from raw values of any lengths, whose serialization has at most 65535
  bytes and whose last attribute, if there is one, has a non-empty value. Serializing it
  and parsing the bytes gives a message with the same type, the same transaction id, the
  same attribute types in order and the zero-padded values, and every stored length is
  the length of the padded value.
\<close>

theorem serialize_then_parse:
  assumes "length (transID v) = 16"
      and "attributes v = map (\<lambda>(t, raw). newAttribute t raw) specs"
      and "length (serialize v) \<le> 65535"
      and "specs \<noteq> [] \<longrightarrow> snd (last specs) \<noteq> []"
  shows "\<exists>p. parsePackage (serialize v) = Some (Ret (Inr p))
           \<and> types_p p = types_p v \<and> transID p = transID v
           \<and> map types_a (attributes p) = map fst specs
           \<and> map value_a (attributes p) = map (\<lambda>(t, raw). padding raw) specs
           \<and> (\<forall>a\<in>set (attributes p). unat (length_a a) = length (value_a a))"
proof -
  have pad: "\<forall>a\<in>set (attributes v). padded a"
    unfolding assms(2) by (auto simp: padded_newAttribute)
  have nonempty: "attributes v \<noteq> [] \<longrightarrow> value_a (last (attributes v)) \<noteq> []"
  proof
    assume "attributes v \<noteq> []"
    then have ne: "specs \<noteq> []" by (simp add: assms(2))
    then have "last (attributes v) = newAttribute (fst (last specs)) (snd (last specs))"
      unfolding assms(2) by (simp add: last_map case_prod_beta)
    moreover have "snd (last specs) \<noteq> []" using ne assms(4) by simp
    ultimately show "value_a (last (attributes v)) \<noteq> []"
      by (simp add: newAttribute_def padding_def)
  qed
  have lens: "\<forall>a\<in>set (attributes v). unat (length_a a) = length (value_a a)"
  proof
    fix a assume a: "a \<in> set (attributes v)"
    then obtain xs ys where "attributes v = xs @ a # ys" by (auto simp: in_set_conv_decomp)
    then have "length (serialize v) \<ge> length (value_a a)"
      by (simp add: length_serialize length_serialize_attr)
    then have "length (value_a a) < 65536" using assms(3) by arith
    moreover have "length_a a = word_of_nat (length (value_a a))"
      using pad a paddedD(2) by blast
    ultimately show "unat (length_a a) = length (value_a a)" by (simp add: unat_of_nat16)
  qed
  have "map types_a (attributes v) = map fst specs"
    unfolding assms(2) by (simp add: newAttribute_def case_prod_beta comp_def)
  moreover have "map value_a (attributes v) = map (\<lambda>(t, raw). padding raw) specs"
    unfolding assms(2) by (simp add: newAttribute_def case_prod_beta comp_def)
  ultimately show ?thesis
    using parse_serialize [OF assms(1) pad assms(3) nonempty] lens by simp
qed

text \<open>
  C5, witness: the amended statement at a request with two attributes, of raw lengths 3
  and 4.
\<close>

theorem serialize_then_parse_witness:
  "length (transID two_attrs) = 16 \<and>
   length (serialize two_attrs) \<le> 65535 \<and>
   (\<exists>p. parsePackage (serialize two_attrs) = Some (Ret (Inr p))
        \<and> types_p p = types_p two_attrs \<and> transID p = transID two_attrs
        \<and> map types_a (attributes p) = map fst [(6, [1, 2, 3]), (3, [0, 0, 0, 6])]
        \<and> map value_a (attributes p)
             = map (\<lambda>(t, raw). padding raw) [(6 :: uint16, [1, 2, 3]), (3, [0, 0, 0, 6])]
        \<and> (\<forall>a\<in>set (attributes p). unat (length_a a) = length (value_a a)))"
proof -
  have t: "length (transID two_attrs) = 16" by (simp add: two_attrs_def addAttribute_def fresh_def)
  have a: "attributes two_attrs
             = map (\<lambda>(t, raw). newAttribute t raw) [(6, [1, 2, 3]), (3, [0, 0, 0, 6])]"
    by (simp add: two_attrs_def addAttribute_def fresh_def)
  have l: "length (serialize two_attrs) \<le> 65535"
    by (simp add: length_serialize length_serialize_attr a t newAttribute_def padding_def)
  have n: "[(6 :: uint16, [1, 2, 3 :: byte]), (3, [0, 0, 0, 6])] \<noteq> []
             \<longrightarrow> snd (last [(6 :: uint16, [1, 2, 3 :: byte]), (3, [0, 0, 0, 6])]) \<noteq> []"
    by simp
  from serialize_then_parse [OF t a l n] t l show ?thesis by simp
qed

text \<open>
  C5, counterexample to the claim as written ("any number of attributes of arbitrary raw
  value lengths"): a message whose only attribute has an empty value comes back with no
  attribute at all, and a message with a raw value of 65536 bytes does not come back.
\<close>

theorem serialize_then_parse_counterexample:
  "parsePackage (serialize (addAttribute fresh (newAttribute 6 [])))
     = Some (Ret (Inr (fresh\<lparr>length_p := 4\<rparr>)))
   \<and> attributes (fresh\<lparr>length_p := 4\<rparr>) = []
   \<and> attributes (addAttribute fresh (newAttribute 6 [])) = [\<lparr>types_a = 6, length_a = 0, value_a = []\<rparr>]
   \<and> parsePackage (serialize (addAttribute fresh (newAttribute 6 (replicate 65536 0))))
     = Some (Ret (Inl TooLong))"
proof -
  have a: "serialize (addAttribute fresh (newAttribute 6 []))
        = [0, 0, 0, 4, 0xa2, 0x40, 0x02, 0x27, 1, 2, 3, 4, 5, 6, 7, 8, 9, 10, 11, 12, 0, 6, 0, 0]"
    by (simp add: serialize_def serialize_attr_def addAttribute_def newAttribute_def fresh_def
          padding_def align_def PutUint16_def)
  have "parsePackage (serialize (addAttribute fresh (newAttribute 6 [])))
     = Some (Ret (Inr (fresh\<lparr>length_p := 4\<rparr>)))"
    unfolding a by (simp add: parse_eval fresh_def)
  moreover have "65535 < length (serialize (addAttribute fresh (newAttribute 6 (replicate 65536 0))))"
    by (simp add: length_serialize length_serialize_attr addAttribute_def newAttribute_def
          padding_def fresh_def)
  then have "parsePackage (serialize (addAttribute fresh (newAttribute 6 (replicate 65536 0))))
     = Some (Ret (Inl TooLong))"
    by (simp add: parsePackage_cases)
  ultimately show ?thesis
    by (simp add: addAttribute_def newAttribute_def padding_def fresh_def)
qed

text \<open>
  C6. The length field is the sum over the attributes of \<open>4 + align(length)\<close> for a fresh
  packet and after every \<open>addAttribute\<close> (\<open>newPacket_length\<close>, \<open>addAttribute_length\<close>
  above), but not for a parsed one: \<open>parsePackage\<close> stores the length of the header and
  then \<open>addAttribute\<close> adds every attribute to it again (\<open>parsed_length\<close> above). On the
  sample of the test, 72 bytes of attributes, the field ends as 144.
\<close>

theorem parsed_length_counted_twice:
  "(case parsePackage sample of
      Some (Ret (Inr p)) \<Rightarrow> length_p p = 144 \<and> attrs_size (attributes p) = 72
                              \<and> length sample - 20 = 72
    | _ \<Rightarrow> False)"
  by (simp add: sample_parsed attrs_size_def align_def) (simp add: sample_def)

text \<open>
  C7, as amended. Inside \<open>parsePackage\<close> the attribute stream has at most 65515 bytes.
  Whenever more than 4 bytes remain at \<open>pos\<close>, the parser reads the 2-byte type and the
  2-byte length there; it fails with the format error exactly when \<open>pos + 4 + length\<close>,
  with the length as declared and not aligned, exceeds the buffer; otherwise it takes
  \<open>length\<close> bytes of value and advances by \<open>4 + align(length)\<close> bytes, without wrapping.
\<close>

theorem parse_step_bounds:
  assumes "length pkgData \<le> 65515" and "unat pos + 4 < length pkgData"
  shows "(length pkgData < unat pos + 4 + unat (rd16 pkgData (unat pos + 2))
            \<longrightarrow> parse_step pkgData pos pkt = Stop (Ret (Inl FormatMismatch)))
       \<and> (unat pos + 4 + unat (rd16 pkgData (unat pos + 2)) \<le> length pkgData
            \<longrightarrow> parse_step pkgData pos pkt
                  = Next (pos + (align (rd16 pkgData (unat pos + 2)) + 4))
                      (addAttribute pkt
                         (newAttribute (rd16 pkgData (unat pos))
                            (take (unat (rd16 pkgData (unat pos + 2))) (drop (unat pos + 4) pkgData))))
              \<and> unat (pos + (align (rd16 pkgData (unat pos + 2)) + 4))
                  = unat pos + (4 + unat (align (rd16 pkgData (unat pos + 2)))))"
proof -
  have pb: "unat pos \<le> length pkgData + 3" using assms(2) by arith
  show ?thesis
    using assms(2) unat_next_pos [OF assms(1), of pos "rd16 pkgData (unat pos + 2)"]
    unfolding parse_step_nat [OF assms(1) pb] by simp
qed

text \<open>
  C7, witness: the first attribute of the sample is decoded and the parser advances by
  12 bytes; a declared length of 65535 in a 5-byte stream is the format error.
\<close>

theorem parse_step_bounds_witness:
  "length (drop 20 sample) \<le> 65515 \<and> unat (0 :: uint16) + 4 < length (drop 20 sample) \<and>
   unat (0 :: uint16) + 4 + unat (rd16 (drop 20 sample) (unat (0 :: uint16) + 2)) \<le> length (drop 20 sample) \<and>
   parse_step (drop 20 sample) 0 fresh
     = Next 12 (addAttribute fresh \<lparr>types_a = 1, length_a = 8,
                  value_a = [0x00, 0x01, 0xb5, 0x59, 0x9a, 0x59, 0x05, 0x01]\<rparr>) \<and>
   length [0, 1, 0xff, 0xff, 7 :: byte] \<le> 65515 \<and>
   length [0, 1, 0xff, 0xff, 7 :: byte] < unat (0 :: uint16) + 4 + unat (rd16 [0, 1, 0xff, 0xff, 7] (unat (0 :: uint16) + 2)) \<and>
   parse_step [0, 1, 0xff, 0xff, 7] 0 fresh = Stop (Ret (Inl FormatMismatch))"
  using parse_step_bounds [of "drop 20 sample" 0 fresh]
        parse_step_bounds [of "[0, 1, 0xff, 0xff, 7]" 0 fresh]
  by (simp add: sample_def rd16_def align_def newAttribute_def padding_def)

text \<open>
  C7, counterexample to the claim as written (the bound is on \<open>pos + 4 + align(length)\<close>):
  a stream of 5 bytes declaring a value of 1 byte has \<open>4 + align(1) = 8 > 5\<close>, yet the
  attribute is decoded and the parser advances by 8.
\<close>

theorem parse_step_bounds_counterexample:
  "length [0, 1, 0, 1, 7 :: byte] < unat (0 :: uint16) + (4 + unat (align (rd16 [0, 1, 0, 1, 7] 2))) \<and>
   parse_step [0, 1, 0, 1, 7] 0 fresh
     = Next 8 (addAttribute fresh \<lparr>types_a = 1, length_a = 4, value_a = [7, 0, 0, 0]\<rparr>)"
  by (simp add: rd16_def parse_eval replicate_small)

text \<open>
  C9. \<open>findAttrAddr\<close> on a matching attribute whose value is shorter than the 4-byte
  address header: \<open>commAddr\<close> slices \<open>value[4:0]\<close> and panics. The parser produces such
  an attribute from a datagram that declares a MAPPED-ADDRESS of length 0, and Test1,
  whose check calls the accessor on every reply to its request, panics on it.
\<close>

theorem findAttrAddr_panics:
  "parsePackage empty_mapped
     = Some (Ret (Inr (fresh\<lparr>types_p := 0x0101, length_p := 24,
          attributes := [\<lparr>types_a = 1, length_a = 0, value_a = []\<rparr>,
                         \<lparr>types_a = 4, length_a = 4, value_a = [1, 2, 3, 4]\<rparr>]\<rparr>)))
   \<and> findAttrAddr (fresh\<lparr>types_p := 0x0101, length_p := 24,
          attributes := [\<lparr>types_a = 1, length_a = 0, value_a = []\<rparr>,
                         \<lparr>types_a = 4, length_a = 4, value_a = [1, 2, 3, 4]\<rparr>]\<rparr>)
        attributeMappedAddress = Panic
   \<and> map_option fst (doTest1 (Some server_addr) client0
          (quiet\<lparr>reads := [Datagram empty_mapped server_addr]\<rparr>)) = Some Panic"
  by (simp add: empty_mapped_def parse_eval run_eval fresh_def slice_def)

section \<open>Claims about the client\<close>

text \<open>
  C1. A discovery run executes Test1, Test2, Test3 and Test4 in this order and stops at
  the first probe that does not return \<open>(NATTypeUnknown, nil)\<close>, that is, at the first
  classification or error; Test1 and Test2 are sent to the server, Test3 to the changed
  address that Test1 recorded from its reply, Test4 to the server again. When Test1 has
  recorded its addresses and the engine of Test2 returns an accepted reply, the run ends
  with OpenInternet if the recorded mapped address and the local address have the same
  text and with FullCone otherwise; when it returns no reply, the run ends with
  SymmetricUDPFirewall if the two texts are the same, and otherwise it goes on with Test3
  at the recorded changed address.
\<close>

theorem doDetect_order:
  "(doTest1 (nSrvAddr c) c w = Some (r1, c1, w1) \<and> stops r1
      \<longrightarrow> doDetect str c w = Some (r1, c1, w1))
   \<and> (doTest1 (nSrvAddr c) c w = Some (r1, c1, w1) \<and> \<not> stops r1
       \<and> doTest2 str (nSrvAddr c1) c1 w1 = Some (r2, c2, w2) \<and> stops r2
      \<longrightarrow> doDetect str c w = Some (r2, c2, w2))
   \<and> (doTest1 (nSrvAddr c) c w = Some (r1, c1, w1) \<and> \<not> stops r1
       \<and> doTest2 str (nSrvAddr c1) c1 w1 = Some (r2, c2, w2) \<and> \<not> stops r2
       \<and> doTest3 str (nChangedAddr c2) c2 w2 = Some (r3, c3, w3) \<and> stops r3
      \<longrightarrow> doDetect str c w = Some (r3, c3, w3))
   \<and> (doTest1 (nSrvAddr c) c w = Some (r1, c1, w1) \<and> \<not> stops r1
       \<and> doTest2 str (nSrvAddr c1) c1 w1 = Some (r2, c2, w2) \<and> \<not> stops r2
       \<and> doTest3 str (nChangedAddr c2) c2 w2 = Some (r3, c3, w3) \<and> \<not> stops r3
      \<longrightarrow> doDetect str c w = doTest4 (nSrvAddr c3) c3 w3)
   \<and> (stops r1 \<longleftrightarrow> r1 \<noteq> Ret (NATTypeUnknown, None))
   \<and> (doTest1 (nSrvAddr c) c w = Some (Ret (NATTypeUnknown, None), c1, w1)
      \<longrightarrow> (\<exists>reply. fsmSendPackageWaitReply c (buildBindingRequest False False (rand_src w (n_rand w)))
                       (nSrvAddr c) fchk1 (w\<lparr>n_rand := n_rand w + 1\<rparr>)
                     = Some (Ret (Inr (Some reply)), w1)
                  \<and> getMappedAddr reply = Ret (nMappedAddr c1)
                  \<and> getChangedAddr reply = Ret (nChangedAddr c1)
                  \<and> nLocalAddr c1 = nLocalAddr c \<and> nSrvAddr c1 = nSrvAddr c))
   \<and> (doTest1 (nSrvAddr c) c w = Some (Ret (NATTypeUnknown, None), c1, w1)
       \<and> fsmSendPackageWaitReply c1 (buildBindingRequest True True (rand_src w1 (n_rand w1)))
            (nSrvAddr c1) (fchk2 str) (w1\<lparr>n_rand := n_rand w1 + 1\<rparr>)
           = Some (Ret (Inr (Some reply2)), w2)
      \<longrightarrow> doDetect str c w =
            Some (Ret (if str (nMappedAddr c1) = str (nLocalAddr c1)
                       then NATTypeOpenInternet else NATTypeFullCone, None), c1, w2))
   \<and> (doTest1 (nSrvAddr c) c w = Some (Ret (NATTypeUnknown, None), c1, w1)
       \<and> fsmSendPackageWaitReply c1 (buildBindingRequest True True (rand_src w1 (n_rand w1)))
            (nSrvAddr c1) (fchk2 str) (w1\<lparr>n_rand := n_rand w1 + 1\<rparr>)
           = Some (Ret (Inr None), w2)
       \<and> str (nMappedAddr c1) = str (nLocalAddr c1)
      \<longrightarrow> doDetect str c w = Some (Ret (NATTypeSymmetricUDPFirewall, None), c1, w2))
   \<and> (doTest1 (nSrvAddr c) c w = Some (Ret (NATTypeUnknown, None), c1, w1)
       \<and> fsmSendPackageWaitReply c1 (buildBindingRequest True True (rand_src w1 (n_rand w1)))
            (nSrvAddr c1) (fchk2 str) (w1\<lparr>n_rand := n_rand w1 + 1\<rparr>)
           = Some (Ret (Inr None), w2)
       \<and> str (nMappedAddr c1) \<noteq> str (nLocalAddr c1)
      \<longrightarrow> doDetect str c w =
            (case doTest3 str (nChangedAddr c1) c1 w2 of
               None \<Rightarrow> None
             | Some (r, c', w') \<Rightarrow>
                 if stops r then Some (r, c', w') else doTest4 (nSrvAddr c') c' w'))"
proof (intro conjI impI)
  show "stops r1 \<longleftrightarrow> r1 \<noteq> Ret (NATTypeUnknown, None)" by (rule stops_iff)
next
  assume "doTest1 (nSrvAddr c) c w = Some (Ret (NATTypeUnknown, None), c1, w1)"
  from doTest1_Unknown [OF this]
  show "\<exists>reply. fsmSendPackageWaitReply c (buildBindingRequest False False (rand_src w (n_rand w)))
                       (nSrvAddr c) fchk1 (w\<lparr>n_rand := n_rand w + 1\<rparr>)
                     = Some (Ret (Inr (Some reply)), w1)
                  \<and> getMappedAddr reply = Ret (nMappedAddr c1)
                  \<and> getChangedAddr reply = Ret (nChangedAddr c1)
                  \<and> nLocalAddr c1 = nLocalAddr c \<and> nSrvAddr c1 = nSrvAddr c"
    by auto
next
  assume a: "doTest1 (nSrvAddr c) c w = Some (Ret (NATTypeUnknown, None), c1, w1)
       \<and> fsmSendPackageWaitReply c1 (buildBindingRequest True True (rand_src w1 (n_rand w1)))
            (nSrvAddr c1) (fchk2 str) (w1\<lparr>n_rand := n_rand w1 + 1\<rparr>)
           = Some (Ret (Inr (Some reply2)), w2)"
  then show "doDetect str c w =
            Some (Ret (if str (nMappedAddr c1) = str (nLocalAddr c1)
                       then NATTypeOpenInternet else NATTypeFullCone, None), c1, w2)"
    using doTest2_reply [of c1 w1 "nSrvAddr c1" str "Some reply2" w2]
    by (simp add: doDetect_def stops_def)
next
  assume a: "doTest1 (nSrvAddr c) c w = Some (Ret (NATTypeUnknown, None), c1, w1)
       \<and> fsmSendPackageWaitReply c1 (buildBindingRequest True True (rand_src w1 (n_rand w1)))
            (nSrvAddr c1) (fchk2 str) (w1\<lparr>n_rand := n_rand w1 + 1\<rparr>)
           = Some (Ret (Inr None), w2)
       \<and> str (nMappedAddr c1) = str (nLocalAddr c1)"
  then show "doDetect str c w = Some (Ret (NATTypeSymmetricUDPFirewall, None), c1, w2)"
    using doTest2_reply [of c1 w1 "nSrvAddr c1" str None w2]
    by (simp add: doDetect_def stops_def)
next
  assume a: "doTest1 (nSrvAddr c) c w = Some (Ret (NATTypeUnknown, None), c1, w1)
       \<and> fsmSendPackageWaitReply c1 (buildBindingRequest True True (rand_src w1 (n_rand w1)))
            (nSrvAddr c1) (fchk2 str) (w1\<lparr>n_rand := n_rand w1 + 1\<rparr>)
           = Some (Ret (Inr None), w2)
       \<and> str (nMappedAddr c1) \<noteq> str (nLocalAddr c1)"
  then show "doDetect str c w =
            (case doTest3 str (nChangedAddr c1) c1 w2 of
               None \<Rightarrow> None
             | Some (r, c', w') \<Rightarrow>
                 if stops r then Some (r, c', w') else doTest4 (nSrvAddr c') c' w')"
    using doTest2_reply [of c1 w1 "nSrvAddr c1" str None w2]
    by (simp add: doDetect_def stops_def)
qed (simp_all add: doDetect_def)


text \<open>
  C1, witness: five scripted runs. Nothing arrives (UdpBlocked after Test1); the mapped
  address is the local one and the changed address answers Test2 (OpenInternet); the
  same without an answer to Test2 (SymmetricUDPFirewall); behind a NAT, no answer to
  Test2 and another mapping in Test3 (Symmetric); the same mapping in Test3 and no answer
  to Test4 (PortRestricted).
\<close>

theorem doDetect_order_witness:
  "(\<exists>c1 w1. doTest1 (nSrvAddr client0) client0 quiet = Some (Ret (NATTypeUdpBlocked, None), c1, w1)
          \<and> stops (Ret (NATTypeUdpBlocked, None))
          \<and> doDetect id client0 quiet = Some (Ret (NATTypeUdpBlocked, None), c1, w1))
   \<and> (\<exists>c1 w1 reply2 w2.
          doTest1 (nSrvAddr client0) client0 open_net = Some (Ret (NATTypeUnknown, None), c1, w1)
        \<and> fsmSendPackageWaitReply c1 (buildBindingRequest True True (rand_src w1 (n_rand w1)))
             (nSrvAddr c1) (fchk2 id) (w1\<lparr>n_rand := n_rand w1 + 1\<rparr>)
            = Some (Ret (Inr (Some reply2)), w2)
        \<and> nMappedAddr c1 = nLocalAddr c1
        \<and> doDetect id client0 open_net = Some (Ret (NATTypeOpenInternet, None), c1, w2))
   \<and> (\<exists>c1 w1 w2.
          doTest1 (nSrvAddr client0) client0 firewalled = Some (Ret (NATTypeUnknown, None), c1, w1)
        \<and> fsmSendPackageWaitReply c1 (buildBindingRequest True True (rand_src w1 (n_rand w1)))
             (nSrvAddr c1) (fchk2 id) (w1\<lparr>n_rand := n_rand w1 + 1\<rparr>)
            = Some (Ret (Inr None), w2)
        \<and> nMappedAddr c1 = nLocalAddr c1
        \<and> doDetect id client0 firewalled = Some (Ret (NATTypeSymmetricUDPFirewall, None), c1, w2))
   \<and> (\<exists>c1 w1 w2 c3 w3.
          doTest1 (nSrvAddr client0) client0 symmetric_nat = Some (Ret (NATTypeUnknown, None), c1, w1)
        \<and> fsmSendPackageWaitReply c1 (buildBindingRequest True True (rand_src w1 (n_rand w1)))
             (nSrvAddr c1) (fchk2 id) (w1\<lparr>n_rand := n_rand w1 + 1\<rparr>)
            = Some (Ret (Inr None), w2)
        \<and> nMappedAddr c1 \<noteq> nLocalAddr c1
        \<and> doTest3 id (nChangedAddr c1) c1 w2 = Some (Ret (NATTypeSymmetric, None), c3, w3)
        \<and> stops (Ret (NATTypeSymmetric, None))
        \<and> doDetect id client0 symmetric_nat = Some (Ret (NATTypeSymmetric, None), c3, w3))
   \<and> (\<exists>c1 w1 w2 c3 w3.
          doTest1 (nSrvAddr client0) client0 port_restricted = Some (Ret (NATTypeUnknown, None), c1, w1)
        \<and> doTest2 id (nSrvAddr c1) c1 w1 = Some (Ret (NATTypeUnknown, None), c1, w2)
        \<and> doTest3 id (nChangedAddr c1) c1 w2 = Some (Ret (NATTypeUnknown, None), c3, w3)
        \<and> \<not> stops (Ret (NATTypeUnknown, None))
        \<and> doDetect id client0 port_restricted = doTest4 (nSrvAddr c3) c3 w3
        \<and> map_option fst (doDetect id client0 port_restricted)
             = Some (Ret (NATTypePortRestricted, None)))"
proof (intro conjI)
  have s: "stops (Ret (NATTypeUdpBlocked, None))" by (simp add: stops_def)
  from blocked_run obtain c1 w1 where
    t1: "doTest1 (nSrvAddr client0) client0 quiet = Some (Ret (NATTypeUdpBlocked, None), c1, w1)"
    by blast
  from doDetect_order [of client0 quiet "Ret (NATTypeUdpBlocked, None)" c1 w1 id] t1 s
  have "doDetect id client0 quiet = Some (Ret (NATTypeUdpBlocked, None), c1, w1)" by blast
  with t1 s show "\<exists>c1 w1. doTest1 (nSrvAddr client0) client0 quiet = Some (Ret (NATTypeUdpBlocked, None), c1, w1)
          \<and> stops (Ret (NATTypeUdpBlocked, None))
          \<and> doDetect id client0 quiet = Some (Ret (NATTypeUdpBlocked, None), c1, w1)"
    by blast
next
  from open_run obtain c1 w1 reply2 w2 where
    t1: "doTest1 (nSrvAddr client0) client0 open_net = Some (Ret (NATTypeUnknown, None), c1, w1)"
    and t2: "fsmSendPackageWaitReply c1 (buildBindingRequest True True (rand_src w1 (n_rand w1)))
             (nSrvAddr c1) (fchk2 id) (w1\<lparr>n_rand := n_rand w1 + 1\<rparr>)
            = Some (Ret (Inr (Some reply2)), w2)"
    and m: "nMappedAddr c1 = nLocalAddr c1"
    by blast
  from doDetect_order [of client0 open_net "Ret (NATTypeUnknown, None)" c1 w1 id _ _ w2 _ _ _ reply2]
       t1 t2 m
  have "doDetect id client0 open_net = Some (Ret (NATTypeOpenInternet, None), c1, w2)" by simp
  with t1 t2 m show "\<exists>c1 w1 reply2 w2.
          doTest1 (nSrvAddr client0) client0 open_net = Some (Ret (NATTypeUnknown, None), c1, w1)
        \<and> fsmSendPackageWaitReply c1 (buildBindingRequest True True (rand_src w1 (n_rand w1)))
             (nSrvAddr c1) (fchk2 id) (w1\<lparr>n_rand := n_rand w1 + 1\<rparr>)
            = Some (Ret (Inr (Some reply2)), w2)
        \<and> nMappedAddr c1 = nLocalAddr c1
        \<and> doDetect id client0 open_net = Some (Ret (NATTypeOpenInternet, None), c1, w2)"
    by blast
next
  from firewalled_run obtain c1 w1 w2 where
    t1: "doTest1 (nSrvAddr client0) client0 firewalled = Some (Ret (NATTypeUnknown, None), c1, w1)"
    and t2: "fsmSendPackageWaitReply c1 (buildBindingRequest True True (rand_src w1 (n_rand w1)))
             (nSrvAddr c1) (fchk2 id) (w1\<lparr>n_rand := n_rand w1 + 1\<rparr>)
            = Some (Ret (Inr None), w2)"
    and m: "nMappedAddr c1 = nLocalAddr c1"
    by blast
  from doDetect_order [of client0 firewalled "Ret (NATTypeUnknown, None)" c1 w1 id _ _ w2]
       t1 t2 m
  have "doDetect id client0 firewalled = Some (Ret (NATTypeSymmetricUDPFirewall, None), c1, w2)"
    by simp
  with t1 t2 m show "\<exists>c1 w1 w2.
          doTest1 (nSrvAddr client0) client0 firewalled = Some (Ret (NATTypeUnknown, None), c1, w1)
        \<and> fsmSendPackageWaitReply c1 (buildBindingRequest True True (rand_src w1 (n_rand w1)))
             (nSrvAddr c1) (fchk2 id) (w1\<lparr>n_rand := n_rand w1 + 1\<rparr>)
            = Some (Ret (Inr None), w2)
        \<and> nMappedAddr c1 = nLocalAddr c1
        \<and> doDetect id client0 firewalled = Some (Ret (NATTypeSymmetricUDPFirewall, None), c1, w2)"
    by blast
next
  have s: "stops (Ret (NATTypeSymmetric, None))" and u: "\<not> stops (Ret (NATTypeUnknown, None))"
    by (simp_all add: stops_def)
  from symmetric_run obtain c1 w1 w2 c3 w3 where
    t1: "doTest1 (nSrvAddr client0) client0 symmetric_nat = Some (Ret (NATTypeUnknown, None), c1, w1)"
    and t2: "fsmSendPackageWaitReply c1 (buildBindingRequest True True (rand_src w1 (n_rand w1)))
             (nSrvAddr c1) (fchk2 id) (w1\<lparr>n_rand := n_rand w1 + 1\<rparr>)
            = Some (Ret (Inr None), w2)"
    and m: "nMappedAddr c1 \<noteq> nLocalAddr c1"
    and d2: "doTest2 id (nSrvAddr c1) c1 w1 = Some (Ret (NATTypeUnknown, None), c1, w2)"
    and t3: "doTest3 id (nChangedAddr c1) c1 w2 = Some (Ret (NATTypeSymmetric, None), c3, w3)"
    by blast
  from doDetect_order [of client0 symmetric_nat "Ret (NATTypeUnknown, None)" c1 w1 id
         "Ret (NATTypeUnknown, None)" c1 w2 "Ret (NATTypeSymmetric, None)" c3 w3]
       t1 d2 t3 s u
  have "doDetect id client0 symmetric_nat = Some (Ret (NATTypeSymmetric, None), c3, w3)" by blast
  with t1 t2 m t3 s show "\<exists>c1 w1 w2 c3 w3.
          doTest1 (nSrvAddr client0) client0 symmetric_nat = Some (Ret (NATTypeUnknown, None), c1, w1)
        \<and> fsmSendPackageWaitReply c1 (buildBindingRequest True True (rand_src w1 (n_rand w1)))
             (nSrvAddr c1) (fchk2 id) (w1\<lparr>n_rand := n_rand w1 + 1\<rparr>)
            = Some (Ret (Inr None), w2)
        \<and> nMappedAddr c1 \<noteq> nLocalAddr c1
        \<and> doTest3 id (nChangedAddr c1) c1 w2 = Some (Ret (NATTypeSymmetric, None), c3, w3)
        \<and> stops (Ret (NATTypeSymmetric, None))
        \<and> doDetect id client0 symmetric_nat = Some (Ret (NATTypeSymmetric, None), c3, w3)"
    by blast
next
  have u: "\<not> stops (Ret (NATTypeUnknown, None))" by (simp add: stops_def)
  from port_restricted_run obtain c1 w1 w2 c3 w3 where
    t1: "doTest1 (nSrvAddr client0) client0 port_restricted = Some (Ret (NATTypeUnknown, None), c1, w1)"
    and d2: "doTest2 id (nSrvAddr c1) c1 w1 = Some (Ret (NATTypeUnknown, None), c1, w2)"
    and t3: "doTest3 id (nChangedAddr c1) c1 w2 = Some (Ret (NATTypeUnknown, None), c3, w3)"
    and t4: "map_option fst (doTest4 (nSrvAddr c3) c3 w3) = Some (Ret (NATTypePortRestricted, None))"
    by blast
  from doDetect_order [of client0 port_restricted "Ret (NATTypeUnknown, None)" c1 w1 id
         "Ret (NATTypeUnknown, None)" c1 w2 "Ret (NATTypeUnknown, None)" c3 w3]
       t1 d2 t3 u
  have d: "doDetect id client0 port_restricted = doTest4 (nSrvAddr c3) c3 w3" by blast
  with t1 d2 t3 t4 u show "\<exists>c1 w1 w2 c3 w3.
          doTest1 (nSrvAddr client0) client0 port_restricted = Some (Ret (NATTypeUnknown, None), c1, w1)
        \<and> doTest2 id (nSrvAddr c1) c1 w1 = Some (Ret (NATTypeUnknown, None), c1, w2)
        \<and> doTest3 id (nChangedAddr c1) c1 w2 = Some (Ret (NATTypeUnknown, None), c3, w3)
        \<and> \<not> stops (Ret (NATTypeUnknown, None))
        \<and> doDetect id client0 port_restricted = doTest4 (nSrvAddr c3) c3 w3
        \<and> map_option fst (doDetect id client0 port_restricted)
             = Some (Ret (NATTypePortRestricted, None))"
    by (simp only: d) blast
qed


text \<open>
  C2, as amended. In the listen loop, a received datagram that decodes and whose
  transaction id differs from the request's, or that the acceptance check refuses, is
  discarded: the loop goes on with the next read, inside the same attempt (nothing is
  sent and no deadline is set in between). A datagram that fails to decode is not
  discarded: the loop returns the decoding error.
\<close>

theorem listen_discards:
  "(parsePackage (take maxPacketSize d) = Some (Ret (Inr p))
      \<and> (transID rqst \<noteq> transID p \<or> fchk c (p\<lparr>orgHost := Some peerAddr\<rparr>) = Ret False)
     \<longrightarrow> listen c rqst fchk (Datagram d peerAddr # rs) = listen c rqst fchk rs)
   \<and> (parsePackage (take maxPacketSize d) = Some (Ret (Inl err))
     \<longrightarrow> listen c rqst fchk (Datagram d peerAddr # rs) = Some (Return (Ret (Inl err)), rs))"
  by auto


text \<open>
  C2, witness: the sample carries another transaction id than the request and is
  skipped; a reply with the right id and no attribute is refused by the check of Test1
  and skipped; an empty datagram ends the loop with "too short".
\<close>

theorem listen_discards_witness:
  "parsePackage (take maxPacketSize sample) = Some (Ret (Inr sample_packet))
   \<and> transID fresh \<noteq> transID sample_packet
   \<and> listen client0 fresh fchk1 [Datagram sample server_addr, Timeout, Timeout] = Some (Break, [Timeout])
   \<and> parsePackage (take maxPacketSize bare_reply) = Some (Ret (Inr (fresh\<lparr>types_p := 0x0101\<rparr>)))
   \<and> fchk1 client0 (fresh\<lparr>types_p := 0x0101, orgHost := Some server_addr\<rparr>) = Ret False
   \<and> listen client0 fresh fchk1 [Datagram bare_reply server_addr, Timeout, Timeout] = Some (Break, [Timeout])
   \<and> parsePackage (take maxPacketSize []) = Some (Ret (Inl TooShort))
   \<and> listen client0 fresh fchk1 [Datagram [] server_addr, Timeout, Timeout]
        = Some (Return (Ret (Inl TooShort)), [Timeout, Timeout])"
proof -
  have a: "parsePackage (take maxPacketSize sample) = Some (Ret (Inr sample_packet))"
    by (simp add: take_sample sample_packet)
  have b: "parsePackage (take maxPacketSize []) = Some (Ret (Inl TooShort))"
    by (simp add: parsePackage_def)
  have c: "fchk1 client0 (fresh\<lparr>types_p := 0x0101, orgHost := Some server_addr\<rparr>) = Ret False"
    by (rule bare_refused)
  from listen_discards [of sample sample_packet fresh fchk1 client0 server_addr "[Timeout, Timeout]"]
       listen_discards [of bare_reply "fresh\<lparr>types_p := 0x0101\<rparr>" fresh fchk1 client0 server_addr
                            "[Timeout, Timeout]"]
       listen_discards [of "[]" _ fresh fchk1 client0 server_addr "[Timeout, Timeout]" TooShort]
       a b c sample_tid bare_parsed
  show ?thesis by simp
qed


text \<open>
  C2, counterexample to the claim as written (none of the three cases aborts): an empty
  datagram fails to decode, and the engine returns that error after one attempt instead
  of reading on.
\<close>

theorem listen_discards_counterexample:
  "parsePackage (take maxPacketSize []) = Some (Ret (Inl TooShort))
   \<and> listen client0 fresh fchk1 [Datagram [] server_addr, Timeout]
        = Some (Return (Ret (Inl TooShort)), [Timeout])
   \<and> listen client0 fresh fchk1 [Timeout] = Some (Break, [])
   \<and> map_option fst (fsmSendPackageWaitReply client0 (Some fresh) (Some server_addr) fchk1
          (quiet\<lparr>reads := [Datagram [] server_addr, Timeout]\<rparr>)) = Some (Ret (Inl TooShort))"
  by (simp add: parsePackage_def fsmSendPackageWaitReply_def retransmit.simps quiet_def
        maxRetransmitNum_def Let_def)


text \<open>
  C3, as amended. In an attempt whose send and deadline succeeded, a received datagram
  that fails to decode is fatal: the whole retransmission operation returns the decoding
  error. A datagram that decodes but carries another transaction id is not fatal: the
  operation goes on exactly as if the datagram had not arrived.
\<close>

theorem decode_failure_aborts:
  "(i < maxRetransmitNum
      \<and> writes w (n_write w) rqstPkgData srvAddr = Written (length rqstPkgData)
      \<and> deadlines w (n_deadline w) = None
      \<and> reads w = Datagram d peerAddr # rs
      \<and> parsePackage (take maxPacketSize d) = Some (Ret (Inl err))
     \<longrightarrow> retransmit i timeout c rqst rqstPkgData srvAddr fchk w
           = Some (Ret (Inl err), attempted w rqstPkgData srvAddr timeout rs))
   \<and> (i < maxRetransmitNum
      \<and> writes w (n_write w) rqstPkgData srvAddr = Written (length rqstPkgData)
      \<and> deadlines w (n_deadline w) = None
      \<and> parsePackage (take maxPacketSize d) = Some (Ret (Inr p)) \<and> transID rqst \<noteq> transID p
     \<longrightarrow> retransmit i timeout c rqst rqstPkgData srvAddr fchk (w\<lparr>reads := Datagram d peerAddr # rs\<rparr>)
           = retransmit i timeout c rqst rqstPkgData srvAddr fchk (w\<lparr>reads := rs\<rparr>))"
proof (intro conjI impI)
  assume a: "i < maxRetransmitNum
      \<and> writes w (n_write w) rqstPkgData srvAddr = Written (length rqstPkgData)
      \<and> deadlines w (n_deadline w) = None
      \<and> reads w = Datagram d peerAddr # rs
      \<and> parsePackage (take maxPacketSize d) = Some (Ret (Inl err))"
  then have "listen c rqst fchk (reads w) = Some (Return (Ret (Inl err)), rs)" by simp
  with a retransmit_step [of i w rqstPkgData srvAddr c rqst fchk "Return (Ret (Inl err))" rs timeout]
  show "retransmit i timeout c rqst rqstPkgData srvAddr fchk w
           = Some (Ret (Inl err), attempted w rqstPkgData srvAddr timeout rs)"
    by simp
next
  assume b: "i < maxRetransmitNum
      \<and> writes w (n_write w) rqstPkgData srvAddr = Written (length rqstPkgData)
      \<and> deadlines w (n_deadline w) = None
      \<and> parsePackage (take maxPacketSize d) = Some (Ret (Inr p)) \<and> transID rqst \<noteq> transID p"
  then have "listen c rqst fchk (Datagram d peerAddr # rs) = listen c rqst fchk rs" by simp
  with b show "retransmit i timeout c rqst rqstPkgData srvAddr fchk (w\<lparr>reads := Datagram d peerAddr # rs\<rparr>)
           = retransmit i timeout c rqst rqstPkgData srvAddr fchk (w\<lparr>reads := rs\<rparr>)"
    by (intro retransmit_skip) simp_all
qed


text \<open>
  C3, witness: an empty datagram aborts the operation with "too short"; after the sample,
  which carries another transaction id, the operation runs to its end and returns
  "no reply".
\<close>

theorem decode_failure_aborts_witness:
  "(0 :: nat) < maxRetransmitNum
   \<and> parsePackage (take maxPacketSize []) = Some (Ret (Inl TooShort))
   \<and> map_option fst (retransmit 0 100 client0 fresh (serialize fresh) (Some server_addr) fchk1
        (quiet\<lparr>reads := [Datagram [] server_addr, Timeout]\<rparr>)) = Some (Ret (Inl TooShort))
   \<and> parsePackage (take maxPacketSize sample) = Some (Ret (Inr sample_packet))
   \<and> transID fresh \<noteq> transID sample_packet
   \<and> map_option fst (retransmit 0 100 client0 fresh (serialize fresh) (Some server_addr) fchk1
        (quiet\<lparr>reads := [Datagram sample server_addr]\<rparr>)) = Some (Ret (Inr None))"
proof -
  have a: "parsePackage (take maxPacketSize []) = Some (Ret (Inl TooShort))"
    by (simp add: parsePackage_def)
  have b: "parsePackage (take maxPacketSize sample) = Some (Ret (Inr sample_packet))"
    by (simp add: take_sample sample_packet)
  have q: "quiet\<lparr>reads := []\<rparr> = quiet" by (simp add: quiet_def)
  obtain w' where "retransmit 0 100 client0 fresh (serialize fresh) (Some server_addr) fchk1 quiet
     = Some (Ret (Inr None), w')"
    using quiet_retransmit by blast
  with decode_failure_aborts [of 0 "quiet\<lparr>reads := [Datagram [] server_addr, Timeout]\<rparr>"
          "serialize fresh" "Some server_addr" "[]" server_addr "[Timeout]" TooShort 100
          client0 fresh fchk1]
       decode_failure_aborts [of 0 quiet "serialize fresh" "Some server_addr" sample server_addr "[]"
          _ 100 client0 fresh fchk1 sample_packet]
       a b sample_tid q
  show ?thesis by (simp add: maxRetransmitNum_def quiet_def)
qed


text \<open>
  C3, counterexample to the claim as written (a mismatched transaction id aborts with an
  error): the only datagram received is the sample, whose transaction id is not the
  request's, and the engine returns "no reply" and no error.
\<close>

theorem decode_failure_aborts_counterexample:
  "parsePackage (take maxPacketSize sample) = Some (Ret (Inr sample_packet))
   \<and> transID fresh \<noteq> transID sample_packet
   \<and> map_option fst (fsmSendPackageWaitReply client0 (Some fresh) (Some server_addr) fchk1
        (quiet\<lparr>reads := [Datagram sample server_addr]\<rparr>)) = Some (Ret (Inr None))"
proof -
  have b: "parsePackage (take maxPacketSize sample) = Some (Ret (Inr sample_packet))"
    by (simp add: take_sample sample_packet)
  then have "listen client0 fresh fchk1 (Datagram sample server_addr # []) = listen client0 fresh fchk1 []"
    using sample_tid by simp
  from retransmit_skip [OF _ _ _ this, of 0 quiet "serialize fresh" "Some server_addr" 100]
  have "retransmit 0 100 client0 fresh (serialize fresh) (Some server_addr) fchk1
           (quiet\<lparr>reads := [Datagram sample server_addr]\<rparr>)
         = retransmit 0 100 client0 fresh (serialize fresh) (Some server_addr) fchk1 quiet"
    by (simp add: quiet_def maxRetransmitNum_def)
  moreover obtain w' where "retransmit 0 100 client0 fresh (serialize fresh) (Some server_addr) fchk1 quiet
     = Some (Ret (Inr None), w')"
    using quiet_retransmit by blast
  ultimately show ?thesis using b sample_tid
    by (simp add: fsmSendPackageWaitReply_def defRetransmitIntervalMs_def)
qed


text \<open>
  C4, as amended. In every run in which the connection reports no failure (every send
  and every deadline succeeds, no read fails) and every read ends with its deadline or
  brings a datagram that decodes and is not accepted (it has another transaction id or
  is refused by the check), so that no reply is accepted and nothing aborts the call, the
  engine sends the request exactly 9 times, sets before the k-th read the deadline
  \<open>min(100 * 2^(k-1), 1600)\<close> milliseconds (100, 200, 400, 800 and five times 1600), and
  returns "no reply" with no error. Conversely, whenever the engine returns "no reply",
  it has made exactly these 9 attempts.
\<close>

theorem nine_attempts:
  "((\<forall>k. writes w k (serialize rqst) srvAddr = Written (length (serialize rqst)))
      \<and> (\<forall>k. deadlines w k = None)
      \<and> (\<forall>r\<in>set (reads w). unanswered c rqst fchk r)
     \<longrightarrow> (\<exists>w''. fsmSendPackageWaitReply c (Some rqst) srvAddr fchk w = Some (Ret (Inr None), w'')
              \<and> trace w'' = trace w @ concat (map (\<lambda>k. [Sent (serialize rqst) srvAddr,
                                                 Deadline (min (100 * 2 ^ (k - 1)) 1600)]) [1..<10])))
   \<and> (fsmSendPackageWaitReply c (Some rqst) srvAddr fchk w = Some (Ret (Inr None), w')
     \<longrightarrow> trace w' = trace w @ concat (map (\<lambda>k. [Sent (serialize rqst) srvAddr,
                                                 Deadline (min (100 * 2 ^ (k - 1)) 1600)]) [1..<10]))
   \<and> map (\<lambda>k. min (100 * 2 ^ (k - 1)) 1600) [1..<10]
       = [100, 200, 400, 800, 1600, 1600, 1600, 1600, 1600 :: int]"
proof (intro conjI impI)
  assume "(\<forall>k. writes w k (serialize rqst) srvAddr = Written (length (serialize rqst)))
      \<and> (\<forall>k. deadlines w k = None)
      \<and> (\<forall>r\<in>set (reads w). unanswered c rqst fchk r)"
  then obtain w'' where
    r: "retransmit 0 defRetransmitIntervalMs c rqst (serialize rqst) srvAddr fchk w
          = Some (Ret (Inr None), w'')"
    and t: "trace w'' = trace w @ attempts (maxRetransmitNum - 0) defRetransmitIntervalMs
                                     (serialize rqst) srvAddr"
    using retransmit_unanswered [of w "serialize rqst" srvAddr c rqst fchk 0 defRetransmitIntervalMs]
    by blast
  from t have "trace w'' = trace w @ concat (map (\<lambda>k. [Sent (serialize rqst) srvAddr,
                                                 Deadline (min (100 * 2 ^ (k - 1)) 1600)]) [1..<10])"
    unfolding schedule9 by (simp add: maxRetransmitNum_def defRetransmitIntervalMs_def)
  with r show "\<exists>w''. fsmSendPackageWaitReply c (Some rqst) srvAddr fchk w = Some (Ret (Inr None), w'')
              \<and> trace w'' = trace w @ concat (map (\<lambda>k. [Sent (serialize rqst) srvAddr,
                                                 Deadline (min (100 * 2 ^ (k - 1)) 1600)]) [1..<10])"
    by (auto simp: fsmSendPackageWaitReply_def)
next
  assume "fsmSendPackageWaitReply c (Some rqst) srvAddr fchk w = Some (Ret (Inr None), w')"
  then have "trace w' = trace w @ attempts (maxRetransmitNum - 0) defRetransmitIntervalMs (serialize rqst) srvAddr"
    unfolding fsmSendPackageWaitReply_def by (simp add: retransmit_no_reply)
  then show "trace w' = trace w @ concat (map (\<lambda>k. [Sent (serialize rqst) srvAddr,
                                                 Deadline (min (100 * 2 ^ (k - 1)) 1600)]) [1..<10])"
    unfolding schedule9 by (simp add: maxRetransmitNum_def defRetransmitIntervalMs_def)
next
  have "[1..<10] = [1, 2, 3, 4, 5, 6, 7, 8, 9 :: nat]" by (simp add: upt_rec)
  then show "map (\<lambda>k. min (100 * 2 ^ (k - 1)) 1600) [1..<10]
       = [100, 200, 400, 800, 1600, 1600, 1600, 1600, 1600 :: int]"
    by simp
qed


text \<open>
  C4, witness: a run in which a datagram of another transaction arrives during the
  second attempt and nothing else.
\<close>

theorem nine_attempts_witness:
  "(\<forall>k. writes stray k (serialize fresh) (Some server_addr) = Written (length (serialize fresh)))
   \<and> (\<forall>k. deadlines stray k = None)
   \<and> reads stray = [Timeout, Datagram sample server_addr, Timeout]
   \<and> unanswered client0 fresh fchk1 Timeout
   \<and> unanswered client0 fresh fchk1 (Datagram sample server_addr)
   \<and> (\<exists>w'. fsmSendPackageWaitReply client0 (Some fresh) (Some server_addr) fchk1 stray
              = Some (Ret (Inr None), w')
          \<and> trace w' =
              [Sent (serialize fresh) (Some server_addr), Deadline 100,
               Sent (serialize fresh) (Some server_addr), Deadline 200,
               Sent (serialize fresh) (Some server_addr), Deadline 400,
               Sent (serialize fresh) (Some server_addr), Deadline 800,
               Sent (serialize fresh) (Some server_addr), Deadline 1600,
               Sent (serialize fresh) (Some server_addr), Deadline 1600,
               Sent (serialize fresh) (Some server_addr), Deadline 1600,
               Sent (serialize fresh) (Some server_addr), Deadline 1600,
               Sent (serialize fresh) (Some server_addr), Deadline 1600])"
proof -
  have w: "\<forall>k. writes stray k (serialize fresh) (Some server_addr) = Written (length (serialize fresh))"
    and d: "\<forall>k. deadlines stray k = None"
    and r: "reads stray = [Timeout, Datagram sample server_addr, Timeout]"
    and t: "trace stray = []"
    by (simp_all add: stray_def quiet_def)
  have u1: "unanswered client0 fresh fchk1 Timeout" by (simp add: unanswered_def)
  have u2: "unanswered client0 fresh fchk1 (Datagram sample server_addr)"
    by (simp add: unanswered_def take_sample sample_packet sample_tid)
  have u: "\<forall>r\<in>set (reads stray). unanswered client0 fresh fchk1 r" using u1 u2 by (simp add: r)
  note n = nine_attempts [of stray fresh "Some server_addr" client0 fchk1]
  from n w d u obtain w' where
    f: "fsmSendPackageWaitReply client0 (Some fresh) (Some server_addr) fchk1 stray = Some (Ret (Inr None), w')"
    by blast
  from nine_attempts [of stray fresh "Some server_addr" client0 fchk1 w'] f
  have "trace w' = trace stray @ concat (map (\<lambda>k. [Sent (serialize fresh) (Some server_addr),
                                                 Deadline (min (100 * 2 ^ (k - 1)) 1600)]) [1..<10])"
    by blast
  then have "trace w' = attempts 9 100 (serialize fresh) (Some server_addr)"
    by (simp only: schedule9 t append_Nil)
  with f w d r u1 u2 show ?thesis by (simp add: attempts9)
qed


text \<open>
  C4, counterexample to the claim as written (every run in which no reply is accepted):
  the only datagram received is empty. No reply is accepted, yet the engine sends the
  request once, sets one deadline and returns the decoding error "too short".
\<close>

theorem nine_attempts_counterexample:
  "reads (quiet\<lparr>reads := [Datagram [] server_addr]\<rparr>) = [Datagram [] server_addr]
   \<and> parsePackage (take maxPacketSize []) = Some (Ret (Inl TooShort))
   \<and> fsmSendPackageWaitReply client0 (Some fresh) (Some server_addr) fchk1
        (quiet\<lparr>reads := [Datagram [] server_addr]\<rparr>)
       = Some (Ret (Inl TooShort), attempted quiet (serialize fresh) (Some server_addr) 100 [])
   \<and> trace (attempted quiet (serialize fresh) (Some server_addr) 100 [])
       = [Sent (serialize fresh) (Some server_addr), Deadline 100]"
  by (simp add: parsePackage_def fsmSendPackageWaitReply_def retransmit.simps quiet_def
        attempted_def maxRetransmitNum_def defRetransmitIntervalMs_def Let_def)


text \<open>
  C10. When the random source fails, \<open>buildBindingRequest\<close> returns the nil packet, the
  engine called with it panics before anything is sent, and so each of the four probes
  panics instead of returning an error value.
\<close>

theorem rand_failure_panics:
  assumes "rand_src w (n_rand w) = None"
  shows "buildBindingRequest changeIP changePort (rand_src w (n_rand w)) = None
       \<and> fsmSendPackageWaitReply c None srvAddr fchk (w\<lparr>n_rand := n_rand w + 1\<rparr>)
           = Some (Panic, w\<lparr>n_rand := n_rand w + 1\<rparr>)
       \<and> doTest1 srvAddr c w = Some (Panic, c, w\<lparr>n_rand := n_rand w + 1\<rparr>)
       \<and> doTest2 str srvAddr c w = Some (Panic, c, w\<lparr>n_rand := n_rand w + 1\<rparr>)
       \<and> doTest3 str srvAddr c w = Some (Panic, c, w\<lparr>n_rand := n_rand w + 1\<rparr>)
       \<and> doTest4 srvAddr c w = Some (Panic, c, w\<lparr>n_rand := n_rand w + 1\<rparr>)"
  using assms
  by (simp add: buildBindingRequest_def newPacket_def fsmSendPackageWaitReply_def
        doTest1_def doTest2_def doTest3_def doTest4_def)


text \<open>C10, witness: the four probes on a world whose random source fails.\<close>

theorem rand_failure_panics_witness:
  "rand_src no_rand (n_rand no_rand) = None
   \<and> buildBindingRequest False True (rand_src no_rand (n_rand no_rand)) = None
   \<and> map_option fst (doTest1 (Some server_addr) client0 no_rand) = Some Panic
   \<and> map_option fst (doTest2 id (Some server_addr) client0 no_rand) = Some Panic
   \<and> map_option fst (doTest3 id (Some changed_addr) client0 no_rand) = Some Panic
   \<and> map_option fst (doTest4 (Some server_addr) client0 no_rand) = Some Panic"
proof -
  have h: "rand_src no_rand (n_rand no_rand) = None" by (simp add: no_rand_def quiet_def)
  from rand_failure_panics [OF h, of False True client0 _ _ id] h
  show ?thesis by simp
qed


end
